theory Spec2Isabelle
  imports Main
begin

section \<open>Helpdesk support chat: schedule resolution and chat sessions\<close>

text \<open>
  A shallow embedding of the Django application's models and views. Database tables
  are lists of rows (or maps keyed by a unique column), a view is a function from the
  request and the database to a response and the new database, and every exception the
  Python can raise is a value of a sum type.
\<close>

subsection \<open>Python values: errors, decimal formatting, times of day\<close>

datatype py_error =
    DoesNotExist
  | MultipleObjectsReturned
  | IntegrityError
  | KeyError
  | AttributeError
  | ValueError
  | ValidationError string

text \<open>Decimal digits of a natural number, as \<^verbatim>\<open>str(n)\<close> prints them.\<close>

definition digit_char :: "nat \<Rightarrow> char" where
  "digit_char d = ''0123456789'' ! d"

fun show_nat :: "nat \<Rightarrow> string" where
  "show_nat n = (if n < 10 then [digit_char n] else show_nat (n div 10) @ [digit_char (n mod 10)])"

declare show_nat.simps [simp del]

text \<open>Zero padding on the left to a minimal width, as the \<^verbatim>\<open>%02d\<close> fields of strftime.\<close>

definition zfill :: "nat \<Rightarrow> string \<Rightarrow> string" where
  "zfill w s = replicate (w - length s) (CHR ''0'') @ s"

text \<open>
  \<^verbatim>\<open>datetime.time\<close>: naive times compare as the tuples (hour, minute, second,
  microsecond). A time object is always truthy, so the source's test
  \<^verbatim>\<open>not day_schedule.start_time\<close> is a test for \<^verbatim>\<open>None\<close>.
\<close>

record pytime =
  hour :: nat
  minute :: nat
  second :: nat
  microsecond :: nat

definition mk_time :: "nat \<Rightarrow> nat \<Rightarrow> pytime" where
  "mk_time h m = \<lparr>hour = h, minute = m, second = 0, microsecond = 0\<rparr>"

definition time_lt :: "pytime \<Rightarrow> pytime \<Rightarrow> bool" where
  "time_lt a b \<longleftrightarrow>
     hour a < hour b \<or> (hour a = hour b \<and>
       (minute a < minute b \<or> (minute a = minute b \<and>
         (second a < second b \<or> (second a = second b \<and> microsecond a < microsecond b)))))"

definition time_le :: "pytime \<Rightarrow> pytime \<Rightarrow> bool" where
  "time_le a b \<longleftrightarrow> time_lt a b \<or> a = b"

text \<open>\<^verbatim>\<open>t.strftime('%I:%M %p')\<close>: twelve-hour clock, zero padded, with AM or PM.\<close>

definition strftime_I_M_p :: "pytime \<Rightarrow> string" where
  "strftime_I_M_p t =
     zfill 2 (show_nat (if hour t mod 12 = 0 then 12 else hour t mod 12)) @ '':'' @
     zfill 2 (show_nat (minute t)) @ '' '' @ (if hour t < 12 then ''AM'' else ''PM'')"

subsection \<open>The schedule store\<close>

text \<open>
  \<^verbatim>\<open>HelpdeskSchedule\<close> has a unique \<^verbatim>\<open>day_of_week\<close> column and
  \<^verbatim>\<open>ScheduleOverride\<close> a unique \<^verbatim>\<open>date\<close> column, so each table is a map
  from that column to the rest of the row. A date is its proleptic ordinal
  (\<^verbatim>\<open>date.toordinal()\<close>). Audit columns are not read by any operation below and
  are left out.
\<close>

record HelpdeskSchedule =
  is_active :: bool
  start_time :: "pytime option"
  end_time :: "pytime option"

record ScheduleOverride =
  o_is_active :: bool
  o_start_time :: "pytime option"
  o_end_time :: "pytime option"
  reason :: string

type_synonym pydate = nat

record schedule_store =
  schedules :: "nat \<rightharpoonup> HelpdeskSchedule"
  overrides :: "pydate \<rightharpoonup> ScheduleOverride"

definition DAYS_OF_WEEK :: "(nat \<times> string) list" where
  "DAYS_OF_WEEK =
     [(0, ''Monday''), (1, ''Tuesday''), (2, ''Wednesday''), (3, ''Thursday''),
      (4, ''Friday''), (5, ''Saturday''), (6, ''Sunday'')]"

text \<open>
  \<^verbatim>\<open>get_day_of_week_display()\<close>: the label of the choice, or the raw value when the
  value is not among the choices.
\<close>

definition get_day_of_week_display :: "nat \<Rightarrow> string" where
  "get_day_of_week_display d =
     (case map_of DAYS_OF_WEEK d of Some n \<Rightarrow> n | None \<Rightarrow> show_nat d)"

text \<open>
  \<^verbatim>\<open>HelpdeskSchedule.clean\<close>, which \<^verbatim>\<open>save\<close> calls before every write: a stored
  weekly entry has passed it.
\<close>

definition clean :: "HelpdeskSchedule \<Rightarrow> py_error + unit" where
  "clean e =
     (if is_active e then
        (case (start_time e, end_time e) of
           (Some s, Some t) \<Rightarrow>
             if \<not> time_lt s t then Inl (ValidationError ''Start time must be before end time.'')
             else Inr ()
         | _ \<Rightarrow> Inl (ValidationError ''Active days must have both start and end times specified.''))
      else Inr ())"

text \<open>
  The clock as the views read it: \<^verbatim>\<open>timezone.localtime()\<close> gives the local date
  and time of day, \<^verbatim>\<open>timezone.now().date()\<close> the date in UTC.
\<close>

record clock =
  local_ordinal :: pydate
  local_time :: pytime
  utc_ordinal :: pydate

text \<open>\<^verbatim>\<open>date.weekday()\<close>: Monday is 0; ordinal 1 (0001-01-01) is a Monday.\<close>

definition weekday :: "pydate \<Rightarrow> nat" where
  "weekday d = (d + 6) mod 7"

subsection \<open>HelpdeskSchedule.is_currently_available\<close>

definition is_currently_available :: "schedule_store \<Rightarrow> clock \<Rightarrow> bool \<times> string" where
  "is_currently_available st now =
     (let current_day = weekday (local_ordinal now);
          current_time = local_time now
      in case schedules st current_day of
           None \<Rightarrow> (False, ''Schedule not configured for this day'')
         | Some day_schedule \<Rightarrow>
             if \<not> is_active day_schedule then
               (False, ''Support is closed on '' @ get_day_of_week_display current_day @ ''s'')
             else
               (case (start_time day_schedule, end_time day_schedule) of
                  (Some s, Some e) \<Rightarrow>
                    if time_le s current_time \<and> time_le current_time e then
                      (True, ''Support is currently available'')
                    else
                      (False, ''Support hours: '' @ strftime_I_M_p s @ '' - '' @ strftime_I_M_p e)
                | _ \<Rightarrow> (True, ''Support is available'')))"

subsection \<open>HelpdeskSchedule.get_next_available_time\<close>

text \<open>\<^verbatim>\<open>cls.objects.get(day_of_week=d, is_active=True)\<close>; \<open>None\<close> is DoesNotExist.\<close>

definition get_active :: "schedule_store \<Rightarrow> nat \<Rightarrow> HelpdeskSchedule option" where
  "get_active st d =
     (case schedules st d of
        None \<Rightarrow> None
      | Some s \<Rightarrow> if is_active s then Some s else None)"

text \<open>
  The loop \<^verbatim>\<open>for i in range(1, 8)\<close> over the offsets still to visit. The lookup
  \<^verbatim>\<open>dict(cls.DAYS_OF_WEEK)[check_day]\<close> raises KeyError on a missing key.
\<close>

fun next_days :: "schedule_store \<Rightarrow> nat \<Rightarrow> nat list \<Rightarrow> py_error + string" where
  "next_days st current_day [] = Inr ''Schedule not available''"
| "next_days st current_day (i # rest) =
     (let check_day = (current_day + i) mod 7
      in case get_active st check_day of
           None \<Rightarrow> next_days st current_day rest
         | Some schedule \<Rightarrow>
             (case start_time schedule of
                None \<Rightarrow> next_days st current_day rest
              | Some s \<Rightarrow>
                  (case map_of DAYS_OF_WEEK check_day of
                     None \<Rightarrow> Inl KeyError
                   | Some day_name \<Rightarrow>
                       if i = 1 then
                         Inr (''Tomorrow ('' @ day_name @ '') at '' @ strftime_I_M_p s)
                       else
                         Inr (day_name @ '' at '' @ strftime_I_M_p s))))"

definition get_next_available_time :: "schedule_store \<Rightarrow> clock \<Rightarrow> py_error + string" where
  "get_next_available_time st now =
     (let current_day = weekday (local_ordinal now);
          current_time = local_time now
      in case get_active st current_day of
           None \<Rightarrow> next_days st current_day [1..<8]
         | Some today_schedule \<Rightarrow>
             (case (start_time today_schedule, end_time today_schedule) of
                (Some s, Some e) \<Rightarrow>
                  if time_lt current_time s then Inr (''Today at '' @ strftime_I_M_p s)
                  else next_days st current_day [1..<8]
              | _ \<Rightarrow> next_days st current_day [1..<8]))"

subsection \<open>The schedule status endpoint of accounts/views.py\<close>

text \<open>
  \<^verbatim>\<open>ScheduleOverride.get_override_for_date\<close> is the lookup in the override table.
  Of the JSON response the fields that describe availability are kept.
\<close>

definition get_override_for_date :: "schedule_store \<Rightarrow> pydate \<Rightarrow> ScheduleOverride option" where
  "get_override_for_date st d = overrides st d"

record status_response =
  r_is_available :: bool
  r_message :: string
  r_next_available :: string
  r_has_override :: bool
  r_override_reason :: "string option"

definition schedule_status_api :: "schedule_store \<Rightarrow> clock \<Rightarrow> py_error + status_response" where
  "schedule_status_api st now =
     (let today = utc_ordinal now;
          override = get_override_for_date st today;
          (avail, message) =
            (case override of
               Some ov \<Rightarrow>
                 (case (o_is_active ov, o_start_time ov, o_end_time ov) of
                    (True, Some s, Some e) \<Rightarrow>
                      (time_le s (local_time now) \<and> time_le (local_time now) e,
                       ''Special hours today: '' @ strftime_I_M_p s @ '' - '' @ strftime_I_M_p e @
                       '' ('' @ reason ov @ '')'')
                  | _ \<Rightarrow> (o_is_active ov, ''Special schedule today: '' @ reason ov))
             | None \<Rightarrow> is_currently_available st now)
      in case get_next_available_time st now of
           Inl err \<Rightarrow> Inl err
         | Inr next_available \<Rightarrow>
             Inr \<lparr>r_is_available = avail, r_message = message,
                  r_next_available = next_available,
                  r_has_override = (override \<noteq> None),
                  r_override_reason = map_option reason override\<rparr>)"

subsection \<open>The invariant of stored weekly entries, and example stores\<close>

text \<open>
  Every write of a weekly entry goes through \<^verbatim>\<open>save\<close>, hence through
  \<^verbatim>\<open>clean\<close>: each stored entry has passed it.
\<close>

definition valid_store :: "schedule_store \<Rightarrow> bool" where
  "valid_store st \<longleftrightarrow> (\<forall>d e. schedules st d = Some e \<longrightarrow> clean e = Inr ())"

text \<open>Today's entry is active and the current time precedes its start time.\<close>

definition opens_later_today :: "schedule_store \<Rightarrow> clock \<Rightarrow> bool" where
  "opens_later_today st now \<longleftrightarrow>
     (\<exists>e s. get_active st (weekday (local_ordinal now)) = Some e \<and> start_time e = Some s \<and>
        time_lt (local_time now) s)"

text \<open>
  Monday 2025-01-06 has ordinal 739257. The first store opens Monday 09:00 to 17:00 and
  holds an override that closes that Monday as a holiday.
\<close>

definition monday_entry :: HelpdeskSchedule where
  "monday_entry =
     \<lparr>is_active = True, start_time = Some (mk_time 9 0), end_time = Some (mk_time 17 0)\<rparr>"

definition holiday_override :: ScheduleOverride where
  "holiday_override =
     \<lparr>o_is_active = False, o_start_time = None, o_end_time = None, reason = ''Holiday''\<rparr>"

definition holiday_store :: schedule_store where
  "holiday_store =
     \<lparr>schedules = [0 \<mapsto> monday_entry], overrides = [739257 \<mapsto> holiday_override]\<rparr>"

definition monday_at :: "nat \<Rightarrow> nat \<Rightarrow> clock" where
  "monday_at h m = \<lparr>local_ordinal = 739257, local_time = mk_time h m, utc_ordinal = 739257\<rparr>"

definition thursday_entry :: HelpdeskSchedule where
  "thursday_entry =
     \<lparr>is_active = True, start_time = Some (mk_time 10 0), end_time = Some (mk_time 15 0)\<rparr>"

definition weekdays_store :: schedule_store where
  "weekdays_store =
     \<lparr>schedules =
        [0 \<mapsto> monday_entry, 3 \<mapsto> thursday_entry,
         5 \<mapsto> \<lparr>is_active = False, start_time = None, end_time = None\<rparr>],
      overrides = Map.empty\<rparr>"

section \<open>Chat sessions, messages and attachments\<close>

subsection \<open>Strings\<close>

text \<open>
  A string is the UTF-8 encoding of a Python string, a list of 8-bit characters; the emoji
  of the source's literals are written as their bytes. A code point is one byte that is
  not a continuation byte, followed by its continuation bytes, so \<^verbatim>\<open>len\<close> counts the
  bytes that are not continuation bytes, and \<^verbatim>\<open>str.strip\<close> removes the encodings of
  the white space code points from both ends.
\<close>

definition utf8 :: "nat list \<Rightarrow> string" where
  "utf8 bytes = map char_of bytes"

definition emoji_speech :: string where
  "emoji_speech = utf8 [0xF0, 0x9F, 0x92, 0xAC]"

definition emoji_robot :: string where
  "emoji_robot = utf8 [0xF0, 0x9F, 0xA4, 0x96]"

definition emoji_info :: string where
  "emoji_info = utf8 [0xE2, 0x84, 0xB9, 0xEF, 0xB8, 0x8F]"

definition emoji_memo :: string where
  "emoji_memo = utf8 [0xF0, 0x9F, 0x93, 0x9D]"

definition emoji_wave :: string where
  "emoji_wave = utf8 [0xF0, 0x9F, 0x91, 0x8B]"

definition emoji_wrench :: string where
  "emoji_wrench = utf8 [0xF0, 0x9F, 0x94, 0xA7]"

definition emoji_no_entry :: string where
  "emoji_no_entry = utf8 [0xF0, 0x9F, 0x9A, 0xAB]"

definition is_continuation :: "char \<Rightarrow> bool" where
  "is_continuation c \<longleftrightarrow> 0x80 \<le> (of_char c :: nat) \<and> (of_char c :: nat) < 0xC0"

definition py_len :: "string \<Rightarrow> nat" where
  "py_len s = length (filter (\<lambda>c. \<not> is_continuation c) s)"

text \<open>
  The code points for which \<^verbatim>\<open>str.isspace\<close> holds, encoded: U+0009 to U+000D,
  U+001C to U+0020, U+0085, U+00A0, U+1680, U+2000 to U+200A, U+2028, U+2029, U+202F,
  U+205F and U+3000.
\<close>

definition whitespace :: "string list" where
  "whitespace =
      [[CHR 0x09], [CHR 0x0A], [CHR 0x0B], [CHR 0x0C], [CHR 0x0D], [CHR 0x1C], [CHR 0x1D],
       [CHR 0x1E], [CHR 0x1F], [CHR 0x20], [CHR 0xC2, CHR 0x85], [CHR 0xC2, CHR 0xA0],
       [CHR 0xE1, CHR 0x9A, CHR 0x80], [CHR 0xE2, CHR 0x80, CHR 0x80],
       [CHR 0xE2, CHR 0x80, CHR 0x81], [CHR 0xE2, CHR 0x80, CHR 0x82],
       [CHR 0xE2, CHR 0x80, CHR 0x83], [CHR 0xE2, CHR 0x80, CHR 0x84],
       [CHR 0xE2, CHR 0x80, CHR 0x85], [CHR 0xE2, CHR 0x80, CHR 0x86],
       [CHR 0xE2, CHR 0x80, CHR 0x87], [CHR 0xE2, CHR 0x80, CHR 0x88],
       [CHR 0xE2, CHR 0x80, CHR 0x89], [CHR 0xE2, CHR 0x80, CHR 0x8A],
       [CHR 0xE2, CHR 0x80, CHR 0xA8], [CHR 0xE2, CHR 0x80, CHR 0xA9],
       [CHR 0xE2, CHR 0x80, CHR 0xAF], [CHR 0xE2, CHR 0x81, CHR 0x9F],
       [CHR 0xE3, CHR 0x80, CHR 0x80]]"

text \<open>Removing from the front of a string, as long as one of the given strings begins it.\<close>

function strip_leading :: "string list \<Rightarrow> string \<Rightarrow> string" where
  "strip_leading ws s =
     (case find (\<lambda>w. w \<noteq> [] \<and> take (length w) s = w) ws of
        None \<Rightarrow> s
      | Some w \<Rightarrow> strip_leading ws (drop (length w) s))"
  by pat_completeness auto
termination
proof (relation "measure (\<lambda>(ws, s). length s)")
  show "wf (measure (\<lambda>(ws, s). length s))" by simp
next
  fix ws :: "string list" and s w :: string
  assume "find (\<lambda>w. w \<noteq> [] \<and> take (length w) s = w) ws = Some w"
  then have "w \<noteq> []" and "take (length w) s = w"
    by (auto simp: find_Some_iff)
  then have "s \<noteq> []" and "0 < length w"
    by auto
  then show "((ws, drop (length w) s), (ws, s)) \<in> measure (\<lambda>(ws, s). length s)"
    by simp
qed

declare strip_leading.simps [simp del]

definition py_strip :: "string \<Rightarrow> string" where
  "py_strip s = rev (strip_leading (map rev whitespace) (rev (strip_leading whitespace s)))"

text \<open>
  The byte sequences that encode a Python string: each code point in one to four bytes,
  in its shortest form, no surrogate and nothing above U+10FFFF.
\<close>

fun well_formed_utf8 :: "string \<Rightarrow> bool" where
  "well_formed_utf8 [] = True"
| "well_formed_utf8 (b # bs) =
     (let n = (of_char b :: nat)
      in if n < 0x80 then well_formed_utf8 bs
         else if 0xC2 \<le> n \<and> n \<le> 0xDF then
           (case bs of
              c1 # r \<Rightarrow> is_continuation c1 \<and> well_formed_utf8 r
            | _ \<Rightarrow> False)
         else if 0xE0 \<le> n \<and> n \<le> 0xEF then
           (case bs of
              c1 # c2 # r \<Rightarrow>
                is_continuation c1 \<and> is_continuation c2 \<and>
                (if n = 0xE0 then 0xA0 \<le> (of_char c1 :: nat) else True) \<and>
                (if n = 0xED then (of_char c1 :: nat) < 0xA0 else True) \<and>
                well_formed_utf8 r
            | _ \<Rightarrow> False)
         else if 0xF0 \<le> n \<and> n \<le> 0xF4 then
           (case bs of
              c1 # c2 # c3 # r \<Rightarrow>
                is_continuation c1 \<and> is_continuation c2 \<and> is_continuation c3 \<and>
                (if n = 0xF0 then 0x90 \<le> (of_char c1 :: nat) else True) \<and>
                (if n = 0xF4 then (of_char c1 :: nat) < 0x90 else True) \<and>
                well_formed_utf8 r
            | _ \<Rightarrow> False)
         else False)"

text \<open>
  \<^verbatim>\<open>str.lower\<close> is only used to compare with names and extensions written in ASCII
  lower case. Apart from the ASCII capitals no code point has a lower case that such a
  name can contain (the Kelvin sign gives \<^verbatim>\<open>k\<close> and U+0130 gives \<^verbatim>\<open>i\<close> with
  a combining dot, which none of them has), so lowering the ASCII capitals decides these
  comparisons.
\<close>

definition lower_char :: "char \<Rightarrow> char" where
  "lower_char c =
     (if 65 \<le> (of_char c :: nat) \<and> (of_char c :: nat) \<le> 90 then char_of (of_char c + 32 :: nat)
      else c)"

definition py_lower :: "string \<Rightarrow> string" where
  "py_lower s = map lower_char s"

text \<open>
  \<^verbatim>\<open>s.replace(old, new)\<close> for a non-empty \<open>old\<close>: every occurrence, left to right,
  without overlap.
\<close>

function py_replace :: "string \<Rightarrow> string \<Rightarrow> string \<Rightarrow> string" where
  "py_replace old new s =
     (if old = [] \<or> s = [] then s
      else if take (length old) s = old then new @ py_replace old new (drop (length old) s)
      else hd s # py_replace old new (tl s))"
  by pat_completeness auto
termination
  by (relation "measure (\<lambda>(old, new, s). length s)") (auto simp: neq_Nil_conv)

declare py_replace.simps [simp del]

text \<open>
  \<^verbatim>\<open>Path(name).suffix\<close> of a bare file name: the text from the last dot on, empty
  when that dot is the first or the last character.
\<close>

definition path_suffix :: "string \<Rightarrow> string" where
  "path_suffix name =
     (let after = rev (takeWhile (\<lambda>c. c \<noteq> CHR ''.'') (rev name))
      in if CHR ''.'' \<notin> set name then []
         else if length after + 1 = length name then []
         else if after = [] then []
         else CHR ''.'' # after)"

definition file_extension :: "string \<Rightarrow> string" where
  "file_extension name = py_lower (drop 1 (path_suffix name))"

subsection \<open>Rows and the database\<close>

datatype ChatStatus = WAITING | ACTIVE | STUDENT_LEFT | CLOSED

text \<open>
  A session row is identified by its unique \<^verbatim>\<open>chat_id\<close>, which also serves as the
  target of the foreign keys of messages and attachments. The many-to-many relation
  \<^verbatim>\<open>technicians\<close> is the list of the user keys related to the session. Columns that
  no operation below reads are left out: the stored file and the upload time of an
  attachment, and of a user everything but the key and the full name.
\<close>

record ChatSession =
  chat_id :: string
  student_name :: string
  initial_message :: string
  created_at :: nat
  status :: ChatStatus
  technicians :: "nat list"
  student_session_key :: string

record ChatMessage =
  message_id :: nat
  message_chat :: string
  sender_name :: string
  sender_user :: "nat option"
  content :: string
  timestamp :: nat
  is_from_student :: bool
  message_type :: string

record ChatAttachment =
  attachment_chat :: string
  attachment_message :: nat
  original_filename :: string
  uploaded_by_student :: bool
  file_size :: nat
  mime_type :: string

text \<open>
  An uploaded file: its name, its size in bytes, and what
  \<^verbatim>\<open>mimetypes.guess_type\<close> answers for the name.
\<close>

record UploadedFile =
  upload_name :: string
  upload_size :: nat
  upload_guessed_type :: "string option"

record User =
  pk :: "nat option"
  full_name :: string

record database =
  sessions :: "ChatSession list"
  messages :: "ChatMessage list"
  attachments :: "ChatAttachment list"
  users :: "nat list"
  next_message_id :: nat
  schedule :: schedule_store

subsection \<open>chat/forms.py: ChatStartForm\<close>

text \<open>
  A required \<^verbatim>\<open>CharField\<close> of the framework strips the value, refuses an empty
  one, applies the maximal length and refuses a null character; its errors are named by
  their codes.
\<close>

definition CharField_clean :: "nat option \<Rightarrow> string \<Rightarrow> py_error + string" where
  "CharField_clean max_length raw =
     (let value = py_strip raw
      in if value = [] then Inl (ValidationError ''required'')
         else if (case max_length of None \<Rightarrow> False | Some n \<Rightarrow> py_len value > n) then
           Inl (ValidationError ''max_length'')
         else if CHR 0x00 \<in> set value then Inl (ValidationError ''null_characters_not_allowed'')
         else Inr value)"

definition forbidden_names :: "string list" where
  "forbidden_names = [''system'', ''admin'', ''technician'', ''bot'', ''null'', ''undefined'']"

definition clean_student_name :: "string \<Rightarrow> py_error + string" where
  "clean_student_name value =
     (let name = py_strip value
      in if py_len name < 2 then
           Inl (ValidationError (emoji_no_entry @ '' Name must be at least 2 characters long''))
         else if py_lower name \<in> set forbidden_names then
           Inl (ValidationError (emoji_no_entry @ '' Please choose a different name''))
         else Inr name)"

definition clean_initial_message :: "string \<Rightarrow> py_error + string" where
  "clean_initial_message value =
     (let message = py_strip value
      in if py_len message < 10 then
           Inl (ValidationError (utf8 [0xF0, 0x9F, 0x8C, 0x8A] @
             '' Please provide more details about what you need help with (at least 10 characters)''))
         else if py_len message > 1000 then
           Inl (ValidationError (utf8 [0xF0, 0x9F, 0x8C, 0x80] @
             '' Initial message too long (max 1000 characters)''))
         else Inr message)"

text \<open>
  \<^verbatim>\<open>form.is_valid()\<close> with the cleaned data: \<open>None\<close> when a field has an error. A
  field's \<^verbatim>\<open>clean_<name>\<close> method runs only when the field itself has cleaned.
\<close>

definition ChatStartForm_cleaned :: "string \<Rightarrow> string \<Rightarrow> (string \<times> string) option" where
  "ChatStartForm_cleaned raw_name raw_message =
     (let name = (case CharField_clean (Some 100) raw_name of
                    Inl e \<Rightarrow> Inl e | Inr v \<Rightarrow> clean_student_name v);
          message = (case CharField_clean None raw_message of
                    Inl e \<Rightarrow> Inl e | Inr v \<Rightarrow> clean_initial_message v)
      in case (name, message) of
           (Inr n, Inr m) \<Rightarrow> Some (n, m)
         | _ \<Rightarrow> None)"

subsection \<open>chat/forms.py: ChatMessageForm\<close>

definition emoji_replacements :: "(string \<times> string) list" where
  "emoji_replacements =
     [('':)'', utf8 [0xF0, 0x9F, 0x99, 0x82]), ('':('', utf8 [0xF0, 0x9F, 0x99, 0x81]),
      ('':D'', utf8 [0xF0, 0x9F, 0x98, 0x84]), ('':P'', utf8 [0xF0, 0x9F, 0x98, 0x9B]),
      ('':o'', utf8 [0xF0, 0x9F, 0x98, 0xAE]), ('':/'', utf8 [0xF0, 0x9F, 0xAB, 0xA4]),
      ('':|'', utf8 [0xF0, 0x9F, 0x98, 0x90]), ('';)'', utf8 [0xF0, 0x9F, 0x98, 0x89]),
      (''<3'', utf8 [0xE2, 0x9D, 0xA4, 0xEF, 0xB8, 0x8F]), (''</3'', utf8 [0xF0, 0x9F, 0x92, 0x94]),
      ('':thumbsup:'', utf8 [0xF0, 0x9F, 0x91, 0x8D]),
      ('':thumbsdown:'', utf8 [0xF0, 0x9F, 0x91, 0x8E])]"

definition clean_content :: "string \<Rightarrow> py_error + string" where
  "clean_content value =
     (let content = py_strip value
      in if content = [] then
           Inl (ValidationError (emoji_no_entry @ '' Message cannot be empty''))
         else if py_len content < 1 then
           Inl (ValidationError (utf8 [0xF0, 0x9F, 0x8C, 0x8A] @ '' Please enter a message''))
         else Inr (foldl (\<lambda>c (text_emoji, unicode_emoji). py_replace text_emoji unicode_emoji c)
                     content emoji_replacements))"

text \<open>
  The allowed extensions as the list literal evaluates: the adjacent literals
  \<^verbatim>\<open>'xlsx'\<close> and \<^verbatim>\<open>'py'\<close>, with no comma between them, are one string.
\<close>

definition allowed_extensions :: "string list" where
  "allowed_extensions =
     [''png'', ''jpg'', ''jpeg'', ''gif'', ''bmp'', ''webp'',
      ''doc'', ''docx'', ''odp'', ''ods'', ''odt'', ''pdf'', ''txt'', ''rtf'', ''xls'', ''xlsxpy'',
      ''js'', ''html'', ''css'', ''json'', ''csv'',
      ''mp3'', ''wav'', ''mp4'', ''avi'', ''mov'',
      ''zip'', ''7z'']"

text \<open>
  One file through \<^verbatim>\<open>FileField.clean\<close>: a file needs a name and a non-zero size, and
  the \<^verbatim>\<open>FileExtensionValidator\<close> needs its extension among the allowed ones.
\<close>

definition single_file_clean :: "UploadedFile \<Rightarrow> py_error + UploadedFile" where
  "single_file_clean f =
     (if upload_name f = [] then Inl (ValidationError ''invalid'')
      else if upload_size f = 0 then Inl (ValidationError ''empty'')
      else if file_extension (upload_name f) \<notin> set allowed_extensions then
        Inl (ValidationError ''invalid_extension'')
      else Inr f)"

definition max_file_size :: nat where
  "max_file_size = 5 * 1024 * 1024"

definition max_total_size :: nat where
  "max_total_size = 25 * 1024 * 1024"

text \<open>The loop of \<^verbatim>\<open>clean_attachments\<close> over the files, with the running total.\<close>

fun sum_sizes :: "UploadedFile list \<Rightarrow> nat \<Rightarrow> py_error + nat" where
  "sum_sizes [] total_size = Inr total_size"
| "sum_sizes (f # rest) total_size =
     (if upload_size f > max_file_size then
        Inl (ValidationError (emoji_no_entry @ '' File '' @ [CHR 0x22] @ upload_name f @ [CHR 0x22] @
          '' is too large. Maximum size is 5MB per file.''))
      else sum_sizes rest (total_size + upload_size f))"

definition clean_attachments :: "UploadedFile list \<Rightarrow> py_error + UploadedFile list" where
  "clean_attachments files =
     (if files = [] then Inr files
      else case sum_sizes files 0 of
             Inl e \<Rightarrow> Inl e
           | Inr total_size \<Rightarrow>
               if total_size > max_total_size then
                 Inl (ValidationError (emoji_no_entry @ '' Total file size exceeds 25MB limit''))
               else if length files > 10 then
                 Inl (ValidationError (emoji_no_entry @ '' Maximum 10 files per message''))
               else Inr files)"

text \<open>
  \<^verbatim>\<open>message_form.is_valid()\<close> with the cleaned content: the content field and its
  \<^verbatim>\<open>clean_content\<close>, then every file through the field, then
  \<^verbatim>\<open>clean_attachments\<close>.
\<close>

definition content_field :: "string \<Rightarrow> py_error + string" where
  "content_field raw_content =
     (case CharField_clean (Some 2000) raw_content of
        Inl e \<Rightarrow> Inl e
      | Inr v \<Rightarrow> clean_content v)"

definition attachments_field :: "UploadedFile list \<Rightarrow> py_error + UploadedFile list" where
  "attachments_field files =
     (case filter isl (map single_file_clean files) of
        Inl e # _ \<Rightarrow> Inl e
      | _ \<Rightarrow> clean_attachments files)"

definition ChatMessageForm_cleaned :: "string \<Rightarrow> UploadedFile list \<Rightarrow> string option" where
  "ChatMessageForm_cleaned raw_content files =
     (case (content_field raw_content, attachments_field files) of
        (Inr c, Inr a) \<Rightarrow> Some c
      | _ \<Rightarrow> None)"

subsection \<open>Requests, the environment and responses\<close>

datatype http_method = GET | POST

record request =
  req_method :: http_method
  session_key :: "string option"
  req_user :: "User option"
  post_action :: "string option"
  post_content :: string
  post_student_name :: string
  post_initial_message :: string
  req_files :: "UploadedFile list"

record pydatetime =
  year :: nat
  month :: nat
  day :: nat
  dt_hour :: nat
  dt_minute :: nat
  dt_second :: nat

text \<open>
  What a request reads from outside the database: the clock of the schedule resolver;
  \<open>auto_now k\<close>, the time in seconds that \<^verbatim>\<open>auto_now_add\<close> stores in the \<open>k\<close>-th
  session or message row the request creates; \<open>timezone_now\<close>, the reading of
  \<^verbatim>\<open>timezone.now()\<close> in the same unit; \<open>system_now\<close>, the reading of
  \<^verbatim>\<open>datetime.datetime.now()\<close>; \<open>rnd k\<close>, the \<open>k\<close>-th draw of the random source;
  and the key that \<^verbatim>\<open>request.session.create()\<close> would make.
\<close>

record environment =
  env_clock :: clock
  auto_now :: "nat \<Rightarrow> nat"
  timezone_now :: nat
  system_now :: pydatetime
  rnd :: "nat \<Rightarrow> nat"
  fresh_session_key :: string

datatype flash = Flash_error string | Flash_info string | Flash_success string

datatype response =
    Http404
  | Http405
  | Redirect_login
  | Redirect string "string option" "flash option"
  | Json_success
  | Json_form_errors
  | Json_denied
  | Json_messages "ChatMessage list" ChatStatus string
  | Render string "ChatMessage list"
  | Raise py_error

subsection \<open>chat/models.py: generate_chat_id\<close>

text \<open>\<^verbatim>\<open>strftime('%Y%m%d%H%M%S')\<close>; the year is printed without padding.\<close>

definition strftime_YmdHMS :: "pydatetime \<Rightarrow> string" where
  "strftime_YmdHMS d =
     show_nat (year d) @ zfill 2 (show_nat (month d)) @ zfill 2 (show_nat (day d)) @
     zfill 2 (show_nat (dt_hour d)) @ zfill 2 (show_nat (dt_minute d)) @
     zfill 2 (show_nat (dt_second d))"

text \<open>
  \<^verbatim>\<open>get_random_string(length, allowed_chars)\<close> joins \<open>length\<close> choices, each the
  character at a random index below the length of \<open>allowed_chars\<close>.
\<close>

definition get_random_string :: "(nat \<Rightarrow> nat) \<Rightarrow> nat \<Rightarrow> string \<Rightarrow> string" where
  "get_random_string draw n allowed_chars =
     map (\<lambda>k. allowed_chars ! (draw k mod length allowed_chars)) [0..<n]"

definition generate_chat_id :: "environment \<Rightarrow> string" where
  "generate_chat_id env =
     (let stamp = strftime_YmdHMS (system_now env);
          random_suffix = get_random_string (rnd env) 4 ''ABCDEFGHIJKLMNOPQRSTUVWXYZ0123456789''
      in ''CHAT-'' @ stamp @ ''-'' @ random_suffix)"

subsection \<open>Queries and writes\<close>

text \<open>\<^verbatim>\<open>ChatSession.objects.get(chat_id=...)\<close>.\<close>

definition get_session :: "database \<Rightarrow> string \<Rightarrow> py_error + ChatSession" where
  "get_session db cid =
     (case filter (\<lambda>c. chat_id c = cid) (sessions db) of
        [] \<Rightarrow> Inl DoesNotExist
      | [c] \<Rightarrow> Inr c
      | _ \<Rightarrow> Inl MultipleObjectsReturned)"

text \<open>
  \<^verbatim>\<open>ChatSession.objects.create(...)\<close>: the unique constraint on \<^verbatim>\<open>chat_id\<close> refuses
  a second row with the same identifier.
\<close>

definition create_session :: "database \<Rightarrow> ChatSession \<Rightarrow> py_error + database" where
  "create_session db c =
     (if chat_id c \<in> set (map chat_id (sessions db)) then Inl IntegrityError
      else Inr (db\<lparr>sessions := sessions db @ [c]\<rparr>))"

text \<open>\<^verbatim>\<open>chat.save()\<close>: the row of the session is overwritten by the object.\<close>

definition save_session :: "database \<Rightarrow> ChatSession \<Rightarrow> database" where
  "save_session db c =
     db\<lparr>sessions := map (\<lambda>r. if chat_id r = chat_id c then c else r) (sessions db)\<rparr>"

definition create_message ::
  "database \<Rightarrow> string \<Rightarrow> string \<Rightarrow> nat option \<Rightarrow> string \<Rightarrow> bool \<Rightarrow> string \<Rightarrow> nat \<Rightarrow> database" where
  "create_message db cid sender user_key text from_student kind stamp =
     db\<lparr>messages := messages db @
           [\<lparr>message_id = next_message_id db, message_chat = cid, sender_name = sender,
             sender_user = user_key, content = text, timestamp = stamp,
             is_from_student = from_student, message_type = kind\<rparr>],
        next_message_id := next_message_id db + 1\<rparr>"

text \<open>The loop \<^verbatim>\<open>for file in files: ChatAttachment.objects.create(...)\<close>.\<close>

definition create_attachments ::
  "database \<Rightarrow> string \<Rightarrow> nat \<Rightarrow> bool \<Rightarrow> UploadedFile list \<Rightarrow> database" where
  "create_attachments db cid mid by_student files =
     db\<lparr>attachments := attachments db @
           map (\<lambda>f. \<lparr>attachment_chat = cid, attachment_message = mid,
                      original_filename = upload_name f, uploaded_by_student = by_student,
                      file_size = upload_size f,
                      mime_type = (case upload_guessed_type f of
                                     None \<Rightarrow> ''application/octet-stream''
                                   | Some t \<Rightarrow> if t = [] then ''application/octet-stream'' else t)\<rparr>)
             files\<rparr>"

text \<open>\<^verbatim>\<open>chat.messages.all().order_by('timestamp')\<close>; rows with equal timestamps keep their
  order of insertion.\<close>

definition messages_of :: "database \<Rightarrow> string \<Rightarrow> ChatMessage list" where
  "messages_of db cid = sort_key timestamp (filter (\<lambda>m. message_chat m = cid) (messages db))"

text \<open>\<^verbatim>\<open>user in chat.technicians.all()\<close> compares primary keys.\<close>

definition is_technician_of :: "User \<Rightarrow> ChatSession \<Rightarrow> bool" where
  "is_technician_of u c = (case pk u of None \<Rightarrow> False | Some k \<Rightarrow> k \<in> set (technicians c))"

text \<open>\<^verbatim>\<open>chat.technicians.add(user)\<close> relates the user unless already related.\<close>

definition technicians_add :: "nat list \<Rightarrow> nat \<Rightarrow> nat list" where
  "technicians_add ts k = (if k \<in> set ts then ts else ts @ [k])"

subsection \<open>ChatSession.add_technician\<close>

text \<open>
  \<^verbatim>\<open>User.objects.get(pk=user.pk)\<close> raises DoesNotExist for a key that is not in the user
  table; the result is the session object as the method leaves it, which is also what
  the database then holds for it.
\<close>

definition add_technician :: "database \<Rightarrow> ChatSession \<Rightarrow> User \<Rightarrow> py_error + ChatSession" where
  "add_technician db self user =
     (case pk user of
        None \<Rightarrow> Inl DoesNotExist
      | Some k \<Rightarrow>
          if k \<notin> set (users db) then Inl DoesNotExist
          else if k = 0 then Inl ValueError
          else
            (let self1 = self\<lparr>technicians := technicians_add (technicians self) k\<rparr>
             in if status self1 = WAITING then Inr (self1\<lparr>status := ACTIVE\<rparr>) else Inr self1))"

subsection \<open>Deletion\<close>

text \<open>
  Deleting rows cascades along the foreign keys. Removing the stored file of an attachment
  is best effort in the source (a failure is logged) and never keeps a row; the files
  themselves are not part of the model.
\<close>

definition delete_attachments_of :: "database \<Rightarrow> string \<Rightarrow> database" where
  "delete_attachments_of db cid =
     db\<lparr>attachments := filter (\<lambda>a. attachment_chat a \<noteq> cid) (attachments db)\<rparr>"

definition delete_messages_of :: "database \<Rightarrow> string \<Rightarrow> database" where
  "delete_messages_of db cid =
     (let gone = map message_id (filter (\<lambda>m. message_chat m = cid) (messages db))
      in db\<lparr>messages := filter (\<lambda>m. message_chat m \<noteq> cid) (messages db),
            attachments := filter (\<lambda>a. attachment_message a \<notin> set gone) (attachments db)\<rparr>)"

text \<open>\<^verbatim>\<open>ChatSession.delete\<close>: \<^verbatim>\<open>cleanup_files\<close> deletes the attachments of the chat,
  then the row goes with everything that refers to it.\<close>

definition cleanup_files :: "database \<Rightarrow> string \<Rightarrow> database" where
  "cleanup_files db cid = delete_attachments_of db cid"

definition delete_session :: "database \<Rightarrow> string \<Rightarrow> database" where
  "delete_session db cid =
     (let db1 = cleanup_files db cid;
          db2 = delete_messages_of db1 cid;
          db3 = delete_attachments_of db2 cid
      in db3\<lparr>sessions := filter (\<lambda>c. chat_id c \<noteq> cid) (sessions db3)\<rparr>)"

subsection \<open>chat/views.py: chat_landing\<close>

definition system_sender :: string where
  "system_sender = emoji_robot @ '' System''"

text \<open>The session key of the request, made when the request has none.\<close>

definition ensure_session_key :: "environment \<Rightarrow> request \<Rightarrow> string" where
  "ensure_session_key env req =
     (case session_key req of
        None \<Rightarrow> fresh_session_key env
      | Some k \<Rightarrow> if k = [] then fresh_session_key env else k)"

definition chat_landing :: "environment \<Rightarrow> request \<Rightarrow> database \<Rightarrow> response \<times> database" where
  "chat_landing env req db =
     (let key = ensure_session_key env req;
          (is_available, availability_message) =
             is_currently_available (schedule db) (env_clock env);
          today = utc_ordinal (env_clock env);
          override = get_override_for_date (schedule db) today
      in if req_method req = POST then
           (case ChatStartForm_cleaned (post_student_name req) (post_initial_message req) of
              None \<Rightarrow> (Render ''chat/landing.html'' [], db)
            | Some (cleaned_name, cleaned_message) \<Rightarrow>
                (let chat = \<lparr>chat_id = generate_chat_id env, student_name = cleaned_name,
                             initial_message = cleaned_message, created_at = auto_now env 0,
                             status = WAITING, technicians = [], student_session_key = key\<rparr>
                 in case create_session db chat of
                      Inl e \<Rightarrow> (Raise e, db)
                    | Inr db1 \<Rightarrow>
                        (let system_message =
                               (if is_available then
                                  emoji_speech @ '' Chat started by '' @ student_name chat @
                                  ''. Support is currently available!''
                                else
                                  emoji_speech @ '' Chat started by '' @ student_name chat @
                                  ''. Support is currently offline - a technician will respond when available.'' @
                                  (case override of
                                     None \<Rightarrow> []
                                   | Some ov \<Rightarrow> '' (Special schedule: '' @ reason ov @ '')''));
                             db2 = create_message db1 (chat_id chat) system_sender None
                                     system_message False ''system'' (auto_now env 1);
                             db3 = create_message db2 (chat_id chat) (student_name chat) None
                                     (initial_message chat) True ''text'' (auto_now env 2)
                         in if \<not> is_available then
                              (case get_next_available_time (schedule db) (env_clock env) of
                                 Inl e \<Rightarrow> (Raise e, db3)
                               | Inr next_available \<Rightarrow>
                                   (Redirect ''chat:student_chat'' (Some (chat_id chat))
                                      (Some (Flash_info (emoji_memo @ '' Chat '' @ chat_id chat @
                                         '' created! Your message has been queued for when support resumes.''))),
                                    create_message db3 (chat_id chat) system_sender None
                                      (emoji_info @ '' Support hours: '' @ availability_message @
                                       ''. Next available: '' @ next_available)
                                      False ''system'' (auto_now env 3)))
                            else
                              (Redirect ''chat:student_chat'' (Some (chat_id chat))
                                 (Some (Flash_success (utf8 [0xF0, 0x9F, 0x9A, 0x80] @ '' Chat '' @ chat_id chat @
                                    '' initiated! Connecting you with a course assistant...''))),
                               db3))))
         else (Render ''chat/landing.html'' [], db))"

subsection \<open>chat/views.py: student_chat\<close>

text \<open>
  The access validation: the result tells whether access is granted, and gives the
  session and the database after the first-touch binding.
\<close>

definition student_access ::
  "string \<Rightarrow> http_method \<Rightarrow> ChatSession \<Rightarrow> database \<Rightarrow> bool \<times> ChatSession \<times> database" where
  "student_access current_session method chat db =
     (if student_session_key chat = current_session then (True, chat, db)
      else if student_session_key chat = [] \<and> method = GET then
        (let chat1 = chat\<lparr>student_session_key := current_session\<rparr>
         in (True, chat1, save_session db chat1))
      else (False, chat, db))"

definition student_chat ::
  "environment \<Rightarrow> request \<Rightarrow> string \<Rightarrow> database \<Rightarrow> response \<times> database" where
  "student_chat env req cid db =
     (case get_session db cid of
        Inl DoesNotExist \<Rightarrow> (Http404, db)
      | Inl e \<Rightarrow> (Raise e, db)
      | Inr chat0 \<Rightarrow>
          (let current_session = ensure_session_key env req;
               (access_granted, chat, db0) = student_access current_session (req_method req) chat0 db
           in if \<not> access_granted then
                (Redirect ''chat:landing'' None
                   (Some (Flash_error (emoji_no_entry @ '' Access denied to this chat dimension''))), db)
              else
                (let (is_available, availability_message) =
                       is_currently_available (schedule db0) (env_clock env);
                     page = (\<lambda>d. (Render ''chat/student_chat.html'' (messages_of d cid), d))
                 in if req_method req = POST then
                      (if post_action req = Some ''send_message'' then
                         (case ChatMessageForm_cleaned (post_content req) (req_files req) of
                            None \<Rightarrow> page db0
                          | Some cleaned \<Rightarrow>
                              if status chat \<noteq> STUDENT_LEFT then
                                (let mid = next_message_id db0;
                                     db1 = create_message db0 cid (student_name chat) None cleaned
                                             True ''text'' (auto_now env 0);
                                     db2 = create_attachments db1 cid mid True (req_files req);
                                     db3 = (if \<not> is_available \<and> status chat = WAITING then
                                              create_message db2 cid system_sender None
                                                (emoji_memo @ '' Your message has been received. '' @
                                                 availability_message)
                                                False ''system'' (auto_now env 1)
                                            else db2)
                                 in (Json_success, db3))
                              else page db0)
                       else if post_action req = Some ''leave_chat'' then
                         (let chat1 = chat\<lparr>status := STUDENT_LEFT\<rparr>;
                              db1 = save_session db0 chat1;
                              db2 = create_message db1 cid system_sender None
                                      (emoji_wave @ '' '' @ student_name chat1 @ '' has left the chat'')
                                      False ''system'' (auto_now env 0)
                          in (Redirect ''chat:landing'' None
                                (Some (Flash_info (emoji_wave @ '' You have left the chat. Thank you!''))), db2))
                       else page db0)
                    else page db0)))"

subsection \<open>chat/views.py: join_chat\<close>

definition join_message :: "User \<Rightarrow> string" where
  "join_message u = emoji_wrench @ '' '' @ full_name u @ '' has joined the chat''"

definition join_chat :: "environment \<Rightarrow> request \<Rightarrow> string \<Rightarrow> database \<Rightarrow> response \<times> database" where
  "join_chat env req cid db =
     (case req_user req of
        None \<Rightarrow> (Redirect_login, db)
      | Some u \<Rightarrow>
          (case get_session db cid of
             Inl DoesNotExist \<Rightarrow> (Http404, db)
           | Inl e \<Rightarrow> (Raise e, db)
           | Inr chat \<Rightarrow>
               if status chat = WAITING then
                 (case add_technician db chat u of
                    Inl e \<Rightarrow> (Raise e, db)
                  | Inr chat1 \<Rightarrow>
                      (Redirect ''chat:technician_chat'' (Some (chat_id chat))
                         (Some (Flash_success (utf8 [0xE2, 0x9C, 0xA8] @ '' Joined chat '' @ chat_id chat @ ''!''))),
                       create_message (save_session db chat1) cid
                         (emoji_wrench @ '' '' @ full_name u) (pk u) (join_message u)
                         False ''system'' (auto_now env 0)))
               else if status chat = ACTIVE then
                 (if \<not> is_technician_of u chat then
                    (case pk u of
                       None \<Rightarrow> (Raise ValueError, db)
                     | Some k \<Rightarrow>
                         (Redirect ''chat:technician_chat'' (Some (chat_id chat))
                            (Some (Flash_success (utf8 [0xE2, 0x9C, 0xA8] @ '' Joined active chat '' @
                               chat_id chat @ ''!''))),
                          create_message
                            (save_session db (chat\<lparr>technicians := technicians_add (technicians chat) k\<rparr>))
                            cid (emoji_wrench @ '' '' @ full_name u) (pk u) (join_message u)
                            False ''system'' (auto_now env 0)))
                  else
                    (Redirect ''chat:technician_chat'' (Some (chat_id chat))
                       None, db))
               else
                 (Redirect ''chat:technician_dashboard'' None
                    (Some (Flash_error (emoji_no_entry @ '' Cannot join this chat in its current state''))), db)))"

subsection \<open>chat/views.py: technician_chat\<close>

definition technician_chat ::
  "environment \<Rightarrow> request \<Rightarrow> string \<Rightarrow> database \<Rightarrow> response \<times> database" where
  "technician_chat env req cid db =
     (case req_user req of
        None \<Rightarrow> (Redirect_login, db)
      | Some u \<Rightarrow>
          (case get_session db cid of
             Inl DoesNotExist \<Rightarrow> (Http404, db)
           | Inl e \<Rightarrow> (Raise e, db)
           | Inr chat \<Rightarrow>
               if \<not> is_technician_of u chat then
                 (Redirect ''chat:technician_dashboard'' None
                    (Some (Flash_error (emoji_no_entry @
                       '' Access denied - you are not part of this chat''))), db)
               else if req_method req = POST \<and> post_action req = Some ''send_message'' then
                 (case ChatMessageForm_cleaned (post_content req) (req_files req) of
                    None \<Rightarrow> (Json_form_errors, db)
                  | Some cleaned \<Rightarrow>
                      if status chat = ACTIVE then
                        (let mid = next_message_id db;
                             db1 = create_message db cid (full_name u) (pk u) cleaned
                                     False ''text'' (auto_now env 0);
                             db2 = create_attachments db1 cid mid False (req_files req)
                         in (Json_success, db2))
                      else (Json_form_errors, db))
               else if req_method req = POST \<and> post_action req = Some ''close_chat'' then
                 (let db1 = save_session db (chat\<lparr>status := CLOSED\<rparr>);
                      db2 = delete_attachments_of db1 cid;
                      db3 = delete_messages_of db2 cid;
                      db4 = delete_session db3 cid
                  in (Redirect ''chat:technician_dashboard'' None
                        (Some (Flash_success (utf8 [0xF0, 0x9F, 0x94, 0x92] @ '' Chat '' @ cid @
                           '' has been closed and purged from the aether''))), db4))
               else (Render ''chat/technician_chat.html'' (messages_of db cid), db)))"

subsection \<open>chat/views.py: chat_messages_api\<close>

definition chat_messages_api :: "request \<Rightarrow> string \<Rightarrow> database \<Rightarrow> response" where
  "chat_messages_api req cid db =
     (if req_method req \<noteq> GET then Http405
      else case get_session db cid of
             Inl DoesNotExist \<Rightarrow> Http404
           | Inl e \<Rightarrow> Raise e
           | Inr chat \<Rightarrow>
               (let is_student = (session_key req = Some (student_session_key chat));
                    is_technician = (case req_user req of
                                       None \<Rightarrow> False
                                     | Some u \<Rightarrow> is_technician_of u chat)
                in if \<not> (is_student \<or> is_technician) then Json_denied
                   else Json_messages (messages_of db cid) (status chat) (chat_id chat)))"

subsection \<open>chat/utils.py: validate_chat_access\<close>

definition validate_chat_access :: "request \<Rightarrow> ChatSession \<Rightarrow> bool" where
  "validate_chat_access req chat =
     (case req_user req of
        None \<Rightarrow> session_key req = Some (student_session_key chat)
      | Some u \<Rightarrow> is_technician_of u chat)"

subsection \<open>chat/management/commands/cleanup_old_chats.py\<close>

text \<open>
  The command's filter evaluates \<^verbatim>\<open>ChatSession.ChatStatus.CLOSED\<close>. The class
  \<^verbatim>\<open>ChatStatus\<close> is defined at the top level of chat/models.py. The body of the
  class \<^verbatim>\<open>ChatSession\<close> binds the names below and the model base class of the
  framework has no \<^verbatim>\<open>ChatStatus\<close> either, so the attribute lookup on the class
  raises AttributeError.
\<close>

definition ChatSession_attributes :: "string list" where
  "ChatSession_attributes =
     [''chat_id'', ''student_name'', ''initial_message'', ''created_at'', ''status'',
      ''technicians'', ''student_session_key'', ''Meta'', ''__str__'', ''is_active'',
      ''needs_technician'', ''add_technician'', ''cleanup_files'',
      ''_cleanup_empty_directories'', ''delete'']"

definition ChatSession_ChatStatus_CLOSED :: "py_error + ChatStatus" where
  "ChatSession_ChatStatus_CLOSED =
     (if ''ChatStatus'' \<in> set ChatSession_attributes then Inr CLOSED else Inl AttributeError)"

text \<open>The lines the command writes, by what they report.\<close>

datatype output_line =
    Dry_run_header nat int
  | Chat_line string string nat
  | And_more nat
  | Deleted_line nat

definition seconds_per_day :: int where
  "seconds_per_day = 86400"

text \<open>\<^verbatim>\<open>old_chats.delete()\<close>: every session of the queryset goes, with its cascade.\<close>

definition delete_sessions :: "database \<Rightarrow> string list \<Rightarrow> database" where
  "delete_sessions db cids = foldl delete_session db cids"

text \<open>The command from the query on, given the value of the status to filter by.\<close>

definition handle_query ::
  "ChatStatus \<Rightarrow> int \<Rightarrow> int \<Rightarrow> bool \<Rightarrow> database \<Rightarrow> output_line list \<times> database" where
  "handle_query closed cutoff_date days dry_run db =
     (let old_chats = filter (\<lambda>c. status c = closed \<and> int (created_at c) < cutoff_date)
                        (sessions db);
          n = length old_chats
      in if dry_run then
           ([Dry_run_header n days] @
            map (\<lambda>c. Chat_line (chat_id c) (student_name c) (created_at c)) (take 10 old_chats) @
            (if n > 10 then [And_more (n - 10)] else []),
            db)
         else ([Deleted_line n], delete_sessions db (map chat_id old_chats)))"

definition handle :: "environment \<Rightarrow> int \<Rightarrow> bool \<Rightarrow> database \<Rightarrow> (py_error + output_line list) \<times> database" where
  "handle env days dry_run db =
     (let cutoff_date = int (timezone_now env) - days * seconds_per_day
      in case ChatSession_ChatStatus_CLOSED of
           Inl e \<Rightarrow> (Inl e, db)
         | Inr closed \<Rightarrow>
             (let (out, db1) = handle_query closed cutoff_date days dry_run db
              in (Inr out, db1)))"

subsection \<open>Operations as steps on the database\<close>

datatype operation =
    Chat_landing environment request
  | Student_chat environment request string
  | Join_chat environment request string
  | Technician_chat environment request string
  | Chat_messages_api request string
  | Cleanup_old_chats environment int bool

fun step :: "database \<Rightarrow> operation \<Rightarrow> database" where
  "step db (Chat_landing env req) = snd (chat_landing env req db)"
| "step db (Student_chat env req cid) = snd (student_chat env req cid db)"
| "step db (Join_chat env req cid) = snd (join_chat env req cid db)"
| "step db (Technician_chat env req cid) = snd (technician_chat env req cid db)"
| "step db (Chat_messages_api req cid) = db"
| "step db (Cleanup_old_chats env days dry_run) = snd (handle env days dry_run db)"

text \<open>The unique constraint on \<^verbatim>\<open>chat_id\<close>.\<close>

definition unique_chat_ids :: "database \<Rightarrow> bool" where
  "unique_chat_ids db \<longleftrightarrow> distinct (map chat_id (sessions db))"

text \<open>
  Between two states of the database: every session of the second is a session of the
  first, by its identifier, and carries the same student token unless the first had none.
\<close>

definition tokens_kept :: "database \<Rightarrow> database \<Rightarrow> bool" where
  "tokens_kept db db1 \<longleftrightarrow>
     (\<forall>s1\<in>set (sessions db1). \<exists>s\<in>set (sessions db).
        chat_id s = chat_id s1 \<and>
        (student_session_key s = [] \<or> student_session_key s1 = student_session_key s))"

text \<open>The response of \<open>student_chat\<close> to a caller who is refused.\<close>

definition access_denied :: response where
  "access_denied =
     Redirect ''chat:landing'' None
       (Some (Flash_error (emoji_no_entry @ '' Access denied to this chat dimension'')))"

subsection \<open>Example data\<close>

definition MiB :: nat where
  "MiB = 1024 * 1024"

definition png_file :: "nat \<Rightarrow> UploadedFile" where
  "png_file n = \<lparr>upload_name = ''shot.png'', upload_size = n, upload_guessed_type = Some ''image/png''\<rparr>"

definition demo_id :: string where
  "demo_id = ''CHAT-20250106090500-AB12''"

definition demo_chat :: ChatSession where
  "demo_chat =
     \<lparr>chat_id = demo_id, student_name = ''Alice'', initial_message = ''my loops do not work'',
      created_at = 100, status = ACTIVE, technicians = [7], student_session_key = ''sk-alice''\<rparr>"

definition demo_db :: database where
  "demo_db =
     \<lparr>sessions = [demo_chat],
      messages =
        [\<lparr>message_id = 1, message_chat = demo_id, sender_name = system_sender, sender_user = None,
          content = ''started'', timestamp = 100, is_from_student = False, message_type = ''system''\<rparr>,
         \<lparr>message_id = 2, message_chat = demo_id, sender_name = ''Alice'', sender_user = None,
          content = ''my loops do not work'', timestamp = 101, is_from_student = True,
          message_type = ''text''\<rparr>],
      attachments =
        [\<lparr>attachment_chat = demo_id, attachment_message = 2, original_filename = ''shot.png'',
          uploaded_by_student = True, file_size = 10, mime_type = ''image/png''\<rparr>],
      users = [7, 8],
      next_message_id = 3,
      schedule = weekdays_store\<rparr>"


definition demo_env :: "clock \<Rightarrow> environment" where
  "demo_env c =
     \<lparr>env_clock = c, auto_now = (\<lambda>k. 200 + k), timezone_now = 200,
      system_now = \<lparr>year = 2025, month = 1, day = 6, dt_hour = 9, dt_minute = 5, dt_second = 0\<rparr>,
      rnd = (\<lambda>k. 7 * k + 30), fresh_session_key = ''sk-new''\<rparr>"

definition student_request :: "http_method \<Rightarrow> string option \<Rightarrow> string option \<Rightarrow> UploadedFile list \<Rightarrow> request" where
  "student_request m key action files =
     \<lparr>req_method = m, session_key = key, req_user = None, post_action = action,
      post_content = ''see attached'', post_student_name = ''Alice'',
      post_initial_message = ''my loops do not work'', req_files = files\<rparr>"

definition staff_request :: "http_method \<Rightarrow> nat \<Rightarrow> string option \<Rightarrow> request" where
  "staff_request m k action =
     \<lparr>req_method = m, session_key = None,
      req_user = Some \<lparr>pk = Some k, full_name = ''Tess Tech''\<rparr>, post_action = action,
      post_content = ''hello'', post_student_name = [], post_initial_message = [],
      req_files = []\<rparr>"

text \<open>
  A database whose only session is closed and was created at second 100, and a clock that
  reads second 10000000: the session is older than seven days.
\<close>

definition closed_db :: database where
  "closed_db = demo_db\<lparr>sessions := [demo_chat\<lparr>status := CLOSED\<rparr>]\<rparr>"

definition cleanup_env :: environment where
  "cleanup_env = (demo_env (monday_at 10 0))\<lparr>timezone_now := 10000000\<rparr>"

section \<open>Properties of the schedule resolver\<close>

subsection \<open>Times of day\<close>

lemma time_le_refl: "time_le a a"
  by (simp add: time_le_def)

lemma time_le_iff_not_lt: "time_le a b \<longleftrightarrow> \<not> time_lt b a"
  unfolding time_le_def time_lt_def
  by (cases a; cases b) auto

lemma clean_ok_iff:
  "clean e = Inr () \<longleftrightarrow>
     (is_active e \<longrightarrow> (\<exists>s t. start_time e = Some s \<and> end_time e = Some t \<and> time_lt s t))"
  by (auto simp: clean_def split: option.splits)

lemma range_1_8: "[Suc 0..<8] = [1, 2, 3, 4, 5, 6, 7::nat]"
  by (simp add: upt_conv_Cons)

lemmas schedule_eval =
  schedule_status_api_def get_override_for_date_def get_next_available_time_def
  is_currently_available_def get_active_def weekday_def mk_time_def time_le_def time_lt_def
  range_1_8 DAYS_OF_WEEK_def strftime_I_M_p_def zfill_def show_nat.simps digit_char_def
  get_day_of_week_display_def Let_def monday_entry_def thursday_entry_def holiday_override_def
  holiday_store_def weekdays_store_def monday_at_def

lemma valid_weekdays_store: "valid_store weekdays_store"
  by (simp add: valid_store_def weekdays_store_def monday_entry_def thursday_entry_def
      clean_def mk_time_def time_lt_def)

subsection \<open>The inclusive window\<close>

text \<open>
  Claim C7. For an active weekly entry with both times set (a stored entry, so one that
  passed \<open>clean\<close>), the availability check at a time of day equal to the closing time
  answers open, at a time equal to the opening time answers open, and at every time
  strictly after the closing time answers closed.
\<close>

theorem window_inclusive_at_both_ends:
  assumes "schedules st (weekday (local_ordinal now)) = Some e"
    and "is_active e" and "start_time e = Some s" and "end_time e = Some c"
    and "clean e = Inr ()"
  shows "fst (is_currently_available st (now\<lparr>local_time := c\<rparr>)) \<and>
         fst (is_currently_available st (now\<lparr>local_time := s\<rparr>)) \<and>
         (\<forall>t. time_lt c t \<longrightarrow> \<not> fst (is_currently_available st (now\<lparr>local_time := t\<rparr>)))"
proof -
  from assms have "time_lt s c"
    by (auto simp: clean_ok_iff)
  then have le: "time_le s c"
    by (simp add: time_le_def)
  show ?thesis
    using assms(1-4) le
    by (auto simp: is_currently_available_def Let_def time_le_refl time_le_iff_not_lt)
qed

theorem window_inclusive_at_both_ends_witness:
  "fst (is_currently_available weekdays_store (monday_at 17 0)) \<and>
   fst (is_currently_available weekdays_store (monday_at 9 0)) \<and>
   \<not> fst (is_currently_available weekdays_store (monday_at 17 1))"
proof -
  have e: "schedules weekdays_store (weekday (local_ordinal (monday_at 8 0))) = Some monday_entry"
    by (simp add: weekdays_store_def monday_at_def weekday_def)
  have a: "is_active monday_entry" and s: "start_time monday_entry = Some (mk_time 9 0)"
    and c: "end_time monday_entry = Some (mk_time 17 0)"
    by (simp_all add: monday_entry_def)
  have k: "clean monday_entry = Inr ()"
    by (simp add: clean_def monday_entry_def mk_time_def time_lt_def)
  have late: "time_lt (mk_time 17 0) (mk_time 17 1)"
    by (simp add: mk_time_def time_lt_def)
  have upd: "\<And>h m. (monday_at 8 0)\<lparr>local_time := mk_time h m\<rparr> = monday_at h m"
    by (simp add: monday_at_def)
  from window_inclusive_at_both_ends [OF e a s c k] late show ?thesis
    by (auto simp: upd)
qed

subsection \<open>Overrides and the availability check\<close>

lemma is_currently_available_ignores_overrides:
  "is_currently_available (st\<lparr>overrides := ov\<rparr>) now = is_currently_available st now"
  by (simp add: is_currently_available_def)

text \<open>
  The status endpoint does let an override decide: closed with the override's reason when
  the override is not active, and the inclusive window of the override's own times when
  it is active with both times set. The date looked up is the date in UTC.
\<close>

lemma schedule_status_api_override:
  assumes "overrides st (utc_ordinal now) = Some ov"
    and "schedule_status_api st now = Inr r"
  shows "(\<not> o_is_active ov \<longrightarrow>
            \<not> r_is_available r \<and> r_override_reason r = Some (reason ov) \<and>
            r_message r = ''Special schedule today: '' @ reason ov) \<and>
         (\<forall>s e. o_is_active ov \<and> o_start_time ov = Some s \<and> o_end_time ov = Some e \<longrightarrow>
            r_is_available r = (time_le s (local_time now) \<and> time_le (local_time now) e))"
  using assms
  by (auto simp: schedule_status_api_def get_override_for_date_def Let_def
      split: sum.splits option.splits bool.splits)

text \<open>
  Claim C1, at the failing input. On Monday 2025-01-06 at 10:00, with a weekly Monday
  entry 09:00 to 17:00 and an override closing that date as a holiday,
  \<open>is_currently_available\<close> answers open from the weekly entry: it never reads the
  override table. The status endpoint answers closed with the override's reason at the
  same input.
\<close>

theorem is_currently_available_misses_override:
  "get_override_for_date holiday_store (utc_ordinal (monday_at 10 0)) = Some holiday_override \<and>
   is_currently_available holiday_store (monday_at 10 0) =
     (True, ''Support is currently available'') \<and>
   schedule_status_api holiday_store (monday_at 10 0) =
     Inr \<lparr>r_is_available = False, r_message = ''Special schedule today: Holiday'',
          r_next_available = ''Monday at 09:00 AM'', r_has_override = True,
          r_override_reason = Some ''Holiday''\<rparr>"
  by (simp add: schedule_eval)

subsection \<open>The next opening\<close>

lemma get_active_times:
  assumes "valid_store st" and "get_active st d = Some e"
  shows "\<exists>s t. start_time e = Some s \<and> end_time e = Some t \<and> time_lt s t"
proof -
  from assms(2) have "schedules st d = Some e" and "is_active e"
    by (auto simp: get_active_def split: option.splits if_splits)
  with assms(1) show ?thesis
    by (auto simp: valid_store_def clean_ok_iff)
qed

lemma next_days_skip:
  "\<forall>j\<in>set xs. get_active st ((cd + j) mod 7) = None \<Longrightarrow>
     next_days st cd (xs @ ys) = next_days st cd ys"
  by (induction xs) simp_all

lemma next_days_none:
  "\<forall>j\<in>set xs. get_active st ((cd + j) mod 7) = None \<Longrightarrow>
     next_days st cd xs = Inr ''Schedule not available''"
  using next_days_skip[of xs st cd "[]"] by simp

lemma map_of_DAYS_OF_WEEK:
  assumes "d < 7"
  shows "map_of DAYS_OF_WEEK d = Some (get_day_of_week_display d)"
proof -
  from assms have "d = 0 \<or> d = 1 \<or> d = 2 \<or> d = 3 \<or> d = 4 \<or> d = 5 \<or> d = 6"
    by arith
  then show ?thesis
    by (auto simp: get_day_of_week_display_def DAYS_OF_WEEK_def)
qed

lemma next_days_hit:
  assumes "get_active st ((cd + i) mod 7) = Some e" and "start_time e = Some s"
  shows "next_days st cd (i # rest) =
     Inr ((if i = 1 then ''Tomorrow ('' @ get_day_of_week_display ((cd + i) mod 7) @ '')''
           else get_day_of_week_display ((cd + i) mod 7)) @ '' at '' @ strftime_I_M_p s)"
  using assms by (simp add: map_of_DAYS_OF_WEEK)

lemma range_split:
  assumes "1 \<le> i" and "i \<le> 7"
  shows "[1..<8] = [1..<i] @ i # [Suc i..<8]"
proof -
  have "[1..<i + (8 - i)] = [1..<i] @ [i..<i + (8 - i)]"
    using assms(1) by (rule upt_add_eq_append)
  moreover have "i + (8 - i) = 8"
    using assms(2) by simp
  ultimately have "[1..<8] = [1..<i] @ [i..<8]"
    by simp
  also have "[i..<8] = i # [Suc i..<8]"
    using assms by (simp add: upt_conv_Cons)
  finally show ?thesis .
qed

lemma next_days_first:
  assumes "1 \<le> i" and "i \<le> 7"
    and "get_active st ((cd + i) mod 7) = Some e" and "start_time e = Some s"
    and "\<forall>j. 1 \<le> j \<and> j < i \<longrightarrow> get_active st ((cd + j) mod 7) = None"
  shows "next_days st cd [1..<8] =
     Inr ((if i = 1 then ''Tomorrow ('' @ get_day_of_week_display ((cd + i) mod 7) @ '')''
           else get_day_of_week_display ((cd + i) mod 7)) @ '' at '' @ strftime_I_M_p s)"
proof -
  have "\<forall>j\<in>set [1..<i]. get_active st ((cd + j) mod 7) = None"
    using assms(5) by simp
  then have "next_days st cd ([1..<i] @ i # [Suc i..<8]) = next_days st cd (i # [Suc i..<8])"
    by (rule next_days_skip)
  then show ?thesis
    using range_split[OF assms(1,2)] next_days_hit[OF assms(3,4)] by simp
qed

lemma not_today:
  assumes "\<not> opens_later_today st now"
  shows "get_next_available_time st now = next_days st (weekday (local_ordinal now)) [1..<8]"
  using assms
  by (auto simp: get_next_available_time_def opens_later_today_def Let_def split: option.splits)

lemma get_active_overrides: "get_active (st\<lparr>overrides := ov\<rparr>) d = get_active st d"
  by (simp add: get_active_def)

lemma next_days_overrides: "next_days (st\<lparr>overrides := ov\<rparr>) cd xs = next_days st cd xs"
  by (induction xs) (simp_all add: get_active_overrides Let_def cong: option.case_cong)

text \<open>
  Claim C2. Over a store of valid weekly entries: when today's entry is active and the
  current time precedes its start time the answer is "Today at" that time; otherwise the
  answer is the start time of the first offset from 1 to 7 whose weekday has an active
  entry, every smaller offset having none, with the "Tomorrow (day)" prefix exactly at
  offset 1; when no offset has an active entry the answer is "Schedule not available".
  Every active entry of a valid store has both times set, so these cases are all there
  are. The override table is never read.
\<close>

theorem get_next_available_time_scan:
  assumes "valid_store st"
  shows
    "(\<forall>e s. get_active st (weekday (local_ordinal now)) = Some e \<and> start_time e = Some s \<and>
         time_lt (local_time now) s \<longrightarrow>
         get_next_available_time st now = Inr (''Today at '' @ strftime_I_M_p s)) \<and>
     (\<not> opens_later_today st now \<longrightarrow>
        (\<forall>i e s. 1 \<le> i \<and> i \<le> 7 \<and>
            get_active st ((weekday (local_ordinal now) + i) mod 7) = Some e \<and>
            start_time e = Some s \<and>
            (\<forall>j. 1 \<le> j \<and> j < i \<longrightarrow>
               get_active st ((weekday (local_ordinal now) + j) mod 7) = None) \<longrightarrow>
            get_next_available_time st now =
              Inr ((if i = 1
                    then ''Tomorrow ('' @
                      get_day_of_week_display ((weekday (local_ordinal now) + i) mod 7) @ '')''
                    else get_day_of_week_display ((weekday (local_ordinal now) + i) mod 7)) @
                   '' at '' @ strftime_I_M_p s)) \<and>
        ((\<forall>i. 1 \<le> i \<and> i \<le> 7 \<longrightarrow>
            get_active st ((weekday (local_ordinal now) + i) mod 7) = None) \<longrightarrow>
         get_next_available_time st now = Inr ''Schedule not available'')) \<and>
     (\<forall>d e. get_active st d = Some e \<longrightarrow> start_time e \<noteq> None \<and> end_time e \<noteq> None) \<and>
     (\<forall>ov. get_next_available_time (st\<lparr>overrides := ov\<rparr>) now = get_next_available_time st now)"
proof (intro conjI allI impI)
  fix e s
  assume "get_active st (weekday (local_ordinal now)) = Some e \<and> start_time e = Some s \<and>
    time_lt (local_time now) s"
  with get_active_times[OF assms, of "weekday (local_ordinal now)" e]
  show "get_next_available_time st now = Inr (''Today at '' @ strftime_I_M_p s)"
    by (auto simp: get_next_available_time_def Let_def)
next
  fix i e s
  assume nt: "\<not> opens_later_today st now"
    and h: "1 \<le> i \<and> i \<le> 7 \<and>
            get_active st ((weekday (local_ordinal now) + i) mod 7) = Some e \<and>
            start_time e = Some s \<and>
            (\<forall>j. 1 \<le> j \<and> j < i \<longrightarrow>
               get_active st ((weekday (local_ordinal now) + j) mod 7) = None)"
  from h have "next_days st (weekday (local_ordinal now)) [1..<8] =
     Inr ((if i = 1
           then ''Tomorrow ('' @
             get_day_of_week_display ((weekday (local_ordinal now) + i) mod 7) @ '')''
           else get_day_of_week_display ((weekday (local_ordinal now) + i) mod 7)) @
          '' at '' @ strftime_I_M_p s)"
    by (intro next_days_first) auto
  then show "get_next_available_time st now =
     Inr ((if i = 1
           then ''Tomorrow ('' @
             get_day_of_week_display ((weekday (local_ordinal now) + i) mod 7) @ '')''
           else get_day_of_week_display ((weekday (local_ordinal now) + i) mod 7)) @
          '' at '' @ strftime_I_M_p s)"
    using not_today[OF nt] by simp
next
  assume nt: "\<not> opens_later_today st now"
    and h: "\<forall>i. 1 \<le> i \<and> i \<le> 7 \<longrightarrow>
            get_active st ((weekday (local_ordinal now) + i) mod 7) = None"
  have "next_days st (weekday (local_ordinal now)) [1..<8] = Inr ''Schedule not available''"
    by (rule next_days_none) (use h in auto)
  then show "get_next_available_time st now = Inr ''Schedule not available''"
    using not_today[OF nt] by simp
next
  fix d e
  assume "get_active st d = Some e"
  from get_active_times[OF assms this] show "start_time e \<noteq> None" by auto
next
  fix d e
  assume "get_active st d = Some e"
  from get_active_times[OF assms this] show "end_time e \<noteq> None" by auto
next
  fix ov
  show "get_next_available_time (st\<lparr>overrides := ov\<rparr>) now = get_next_available_time st now"
    by (simp add: get_next_available_time_def get_active_overrides next_days_overrides Let_def
        split: option.splits)
qed

theorem get_next_available_time_scan_witness:
  "valid_store weekdays_store \<and>
   get_next_available_time weekdays_store (monday_at 8 0) = Inr ''Today at 09:00 AM'' \<and>
   \<not> opens_later_today weekdays_store (monday_at 18 0) \<and>
   get_next_available_time weekdays_store (monday_at 18 0) = Inr ''Thursday at 10:00 AM'' \<and>
   get_next_available_time (weekdays_store\<lparr>overrides := [739260 \<mapsto> holiday_override]\<rparr>)
     (monday_at 18 0) = Inr ''Thursday at 10:00 AM''"
proof -
  note T = get_next_available_time_scan [OF valid_weekdays_store]
  have today: "get_active weekdays_store (weekday (local_ordinal (monday_at 8 0))) = Some monday_entry \<and>
      start_time monday_entry = Some (mk_time 9 0) \<and>
      time_lt (local_time (monday_at 8 0)) (mk_time 9 0)"
    by (simp add: schedule_eval)
  have r1: "get_next_available_time weekdays_store (monday_at 8 0) = Inr ''Today at 09:00 AM''"
    using T [of "monday_at 8 0"] today by (auto simp: schedule_eval)
  have nt: "\<not> opens_later_today weekdays_store (monday_at 18 0)"
    by (simp add: opens_later_today_def schedule_eval)
  have thu: "(1::nat) \<le> 3 \<and> (3::nat) \<le> 7 \<and>
      get_active weekdays_store ((weekday (local_ordinal (monday_at 18 0)) + 3) mod 7) =
        Some thursday_entry \<and>
      start_time thursday_entry = Some (mk_time 10 0) \<and>
      (\<forall>j. 1 \<le> j \<and> j < 3 \<longrightarrow>
         get_active weekdays_store ((weekday (local_ordinal (monday_at 18 0)) + j) mod 7) = None)"
  proof -
    have "\<And>j::nat. 1 \<le> j \<and> j < 3 \<Longrightarrow> j = 1 \<or> j = 2"
      by arith
    then show ?thesis
      by (auto simp: schedule_eval)
  qed
  have r2: "get_next_available_time weekdays_store (monday_at 18 0) = Inr ''Thursday at 10:00 AM''"
  proof -
    from T [of "monday_at 18 0"] nt thu
    have "get_next_available_time weekdays_store (monday_at 18 0) =
        Inr ((if (3::nat) = 1
              then ''Tomorrow ('' @
                get_day_of_week_display ((weekday (local_ordinal (monday_at 18 0)) + 3) mod 7) @ '')''
              else get_day_of_week_display ((weekday (local_ordinal (monday_at 18 0)) + 3) mod 7)) @
             '' at '' @ strftime_I_M_p (mk_time 10 0))"
      by blast
    then show ?thesis
      by (simp add: schedule_eval)
  qed
  from T [of "monday_at 18 0"] r2
  have r3: "get_next_available_time (weekdays_store\<lparr>overrides := [739260 \<mapsto> holiday_override]\<rparr>)
     (monday_at 18 0) = Inr ''Thursday at 10:00 AM''"
    by simp
  from valid_weekdays_store r1 nt r2 r3 show ?thesis
    by blast
qed

section \<open>Properties of the message form\<close>

subsection \<open>The three attachment limits\<close>

lemma sum_sizes_Inr_iff:
  "sum_sizes files t = Inr n \<longleftrightarrow>
     (\<forall>f\<in>set files. upload_size f \<le> max_file_size) \<and> n = t + sum_list (map upload_size files)"
  by (induction files arbitrary: t) auto

lemma sum_sizes_ok:
  "\<forall>f\<in>set files. upload_size f \<le> max_file_size \<Longrightarrow>
     sum_sizes files t = Inr (t + sum_list (map upload_size files))"
  by (simp add: sum_sizes_Inr_iff)

lemma sum_sizes_too_large:
  "\<exists>f\<in>set files. upload_size f > max_file_size \<Longrightarrow>
   \<exists>f\<in>set files. upload_size f > max_file_size \<and>
     sum_sizes files t = Inl (ValidationError (emoji_no_entry @ '' File '' @ [CHR 0x22] @
       upload_name f @ [CHR 0x22] @ '' is too large. Maximum size is 5MB per file.''))"
  by (induction files arbitrary: t) auto

lemma clean_attachments_cases:
  "clean_attachments files = Inr files \<or> (\<exists>e. clean_attachments files = Inl e)"
  by (auto simp: clean_attachments_def split: sum.splits)

lemma clean_attachments_accepts:
  "clean_attachments files = Inr files \<longleftrightarrow>
     (\<forall>f\<in>set files. upload_size f \<le> max_file_size) \<and>
     sum_list (map upload_size files) \<le> max_total_size \<and> length files \<le> 10"
proof (cases "files = []")
  case True
  then show ?thesis by (simp add: clean_attachments_def)
next
  case False
  show ?thesis
  proof (cases "\<forall>f\<in>set files. upload_size f \<le> max_file_size")
    case True
    from sum_sizes_ok[OF this, of 0] False True show ?thesis
      by (auto simp: clean_attachments_def)
  next
    case nb: False
    then have "\<not> (\<exists>n. sum_sizes files 0 = Inr n)"
      by (simp add: sum_sizes_Inr_iff)
    then obtain e where "sum_sizes files 0 = Inl e"
      by (cases "sum_sizes files 0") auto
    with False nb show ?thesis
      by (auto simp: clean_attachments_def)
  qed
qed

lemma sum_list_const:
  "\<forall>f\<in>set files. upload_size f = n \<Longrightarrow> sum_list (map upload_size files) = length files * n"
  by (induction files) auto

text \<open>
  Claim C10. The three comparisons of \<open>clean_attachments\<close> are strict, so the limits
  themselves pass: the files are accepted exactly when every file has at most
  5 * 1024 * 1024 bytes, the sizes add up to at most 25 * 1024 * 1024 bytes and there are
  at most 10 files.
\<close>

theorem clean_attachments_limits_inclusive:
  "clean_attachments files = Inr files \<longleftrightarrow>
     (\<forall>f\<in>set files. upload_size f \<le> 5 * 1024 * 1024) \<and>
     sum_list (map upload_size files) \<le> 25 * 1024 * 1024 \<and>
     length files \<le> 10"
  using clean_attachments_accepts[of files]
  by (simp add: max_file_size_def max_total_size_def)

theorem clean_attachments_limits_inclusive_witness:
  "clean_attachments [png_file (5 * 1024 * 1024)] = Inr [png_file (5 * 1024 * 1024)] \<and>
   clean_attachments (replicate 5 (png_file (5 * 1024 * 1024))) =
     Inr (replicate 5 (png_file (5 * 1024 * 1024))) \<and>
   clean_attachments (replicate 10 (png_file 1)) = Inr (replicate 10 (png_file 1)) \<and>
   clean_attachments (replicate 11 (png_file 1)) \<noteq> Inr (replicate 11 (png_file 1)) \<and>
   clean_attachments [png_file (5 * 1024 * 1024 + 1)] \<noteq> Inr [png_file (5 * 1024 * 1024 + 1)]"
  using clean_attachments_limits_inclusive [of "[png_file (5 * 1024 * 1024)]"]
    clean_attachments_limits_inclusive [of "replicate 5 (png_file (5 * 1024 * 1024))"]
    clean_attachments_limits_inclusive [of "replicate 10 (png_file 1)"]
    clean_attachments_limits_inclusive [of "replicate 11 (png_file 1)"]
    clean_attachments_limits_inclusive [of "[png_file (5 * 1024 * 1024 + 1)]"]
  by (simp add: png_file_def sum_list_replicate)

subsection \<open>Rejection without writes\<close>

lemma attachments_field_rejects:
  assumes "clean_attachments files \<noteq> Inr files"
  shows "\<exists>e. attachments_field files = Inl e"
proof -
  from assms clean_attachments_cases[of files] obtain e where e: "clean_attachments files = Inl e"
    by auto
  show ?thesis
  proof (cases "filter isl (map single_file_clean files)")
    case Nil
    with e show ?thesis by (simp add: attachments_field_def)
  next
    case (Cons x xs)
    then have "x \<in> set (filter isl (map single_file_clean files))" by simp
    then have "isl x" by simp
    then obtain e' where "x = Inl e'" by (cases x) auto
    with Cons show ?thesis by (simp add: attachments_field_def)
  qed
qed

lemma attachments_field_accepts:
  assumes "\<forall>f\<in>set files. single_file_clean f = Inr f" and "clean_attachments files = Inr files"
  shows "attachments_field files = Inr files"
proof -
  from assms(1) have "filter isl (map single_file_clean files) = []"
    by (induction files) auto
  with assms(2) show ?thesis
    by (simp add: attachments_field_def)
qed

lemma form_rejects:
  assumes "clean_attachments files \<noteq> Inr files"
  shows "ChatMessageForm_cleaned raw files = None"
  using attachments_field_rejects[OF assms]
  by (auto simp: ChatMessageForm_cleaned_def split: sum.splits)

lemma student_chat_invalid_form:
  assumes "ChatMessageForm_cleaned (post_content req) (req_files req) = None"
    and "req_method req = POST" and "post_action req = Some ''send_message''"
  shows "snd (student_chat env req cid db) = db \<and> fst (student_chat env req cid db) \<noteq> Json_success"
  using assms
  by (auto simp: student_chat_def student_access_def Let_def
      split: sum.splits py_error.splits prod.splits)

lemma technician_chat_invalid_form:
  assumes "ChatMessageForm_cleaned (post_content req) (req_files req) = None"
    and "req_method req = POST" and "post_action req = Some ''send_message''"
  shows "snd (technician_chat env req cid db) = db \<and>
    fst (technician_chat env req cid db) \<noteq> Json_success"
  using assms
  by (auto simp: technician_chat_def Let_def split: sum.splits py_error.splits option.splits)

lemma student_chat_valid_form:
  assumes "get_session db cid = Inr chat"
    and "student_session_key chat = ensure_session_key env req"
    and "status chat \<noteq> STUDENT_LEFT"
    and "req_method req = POST" and "post_action req = Some ''send_message''"
    and "ChatMessageForm_cleaned (post_content req) (req_files req) = Some c"
  shows "fst (student_chat env req cid db) = Json_success \<and>
     length (attachments (snd (student_chat env req cid db))) =
       length (attachments db) + length (req_files req) \<and>
     (\<exists>extra. messages (snd (student_chat env req cid db)) =
        messages db @
        \<lparr>message_id = next_message_id db, message_chat = cid, sender_name = student_name chat,
          sender_user = None, content = c, timestamp = auto_now env 0, is_from_student = True,
          message_type = ''text''\<rparr> # extra)"
  using assms
  by (auto simp: student_chat_def student_access_def Let_def create_message_def
      create_attachments_def split: prod.splits)

lemma technician_chat_valid_form:
  assumes "req_user req = Some u" and "get_session db cid = Inr chat"
    and "is_technician_of u chat" and "status chat = ACTIVE"
    and "req_method req = POST" and "post_action req = Some ''send_message''"
    and "ChatMessageForm_cleaned (post_content req) (req_files req) = Some c"
  shows "fst (technician_chat env req cid db) = Json_success \<and>
     length (attachments (snd (technician_chat env req cid db))) =
       length (attachments db) + length (req_files req) \<and>
     messages (snd (technician_chat env req cid db)) =
        messages db @
        [\<lparr>message_id = next_message_id db, message_chat = cid, sender_name = full_name u,
          sender_user = pk u, content = c, timestamp = auto_now env 0, is_from_student = False,
          message_type = ''text''\<rparr>]"
  using assms
  by (simp add: technician_chat_def Let_def create_message_def create_attachments_def)

lemma ten_files_accepted:
  assumes "length files = 10"
    and "\<forall>f\<in>set files. upload_size f = 2 * 1024 * 1024 \<and> single_file_clean f = Inr f"
    and "content_field raw = Inr c"
  shows "ChatMessageForm_cleaned raw files = Some c"
proof -
  from assms(1,2) have "sum_list (map upload_size files) = 10 * (2 * 1024 * 1024)"
    using sum_list_const[of files "2 * 1024 * 1024"] by simp
  with assms(1,2) have "clean_attachments files = Inr files"
    by (simp add: clean_attachments_accepts max_file_size_def max_total_size_def)
  with assms(2) have "attachments_field files = Inr files"
    by (intro attachments_field_accepts) auto
  with assms(3) show ?thesis
    by (simp add: ChatMessageForm_cleaned_def)
qed

text \<open>
  Claim C5. A \<open>send_message\<close> post whose files break a limit (a file over 5 MiB, more
  than 25 MiB in all, or more than 10 files) leaves the database as it was, for the
  student's view and for the technician's: no message and no attachment is written.
  Eleven files are refused; ten files of 2 MiB each pass \<open>clean_attachments\<close>; ten
  files of 3 MiB each are refused with the error of the total size; a file over 5 MiB is
  refused with the error of the file size. Ten files of 2 MiB each with valid names and a
  content that the content field accepts are stored, with one message that carries the
  cleaned content, when the student of a session that has not been left posts them, and
  when a technician of an active session does.
\<close>

theorem post_message_attachment_limits:
  "(((\<exists>f\<in>set (req_files req). 5 * 1024 * 1024 < upload_size f) \<or>
     25 * 1024 * 1024 < sum_list (map upload_size (req_files req)) \<or>
     10 < length (req_files req)) \<and>
    req_method req = POST \<and> post_action req = Some ''send_message'' \<longrightarrow>
      snd (student_chat env req cid db) = db \<and>
      fst (student_chat env req cid db) \<noteq> Json_success \<and>
      snd (technician_chat env req cid db) = db \<and>
      fst (technician_chat env req cid db) \<noteq> Json_success) \<and>
   (length files = 11 \<longrightarrow> (\<exists>e. clean_attachments files = Inl e)) \<and>
   (length files = 10 \<and> (\<forall>f\<in>set files. upload_size f = 2 * 1024 * 1024) \<longrightarrow>
      clean_attachments files = Inr files) \<and>
   (length files = 10 \<and> (\<forall>f\<in>set files. upload_size f = 3 * 1024 * 1024) \<longrightarrow>
      clean_attachments files =
        Inl (ValidationError (emoji_no_entry @ '' Total file size exceeds 25MB limit''))) \<and>
   ((\<exists>f\<in>set files. 5 * 1024 * 1024 < upload_size f) \<longrightarrow>
      (\<exists>f\<in>set files. 5 * 1024 * 1024 < upload_size f \<and>
         clean_attachments files =
           Inl (ValidationError (emoji_no_entry @ '' File '' @ [CHR 0x22] @ upload_name f @
             [CHR 0x22] @ '' is too large. Maximum size is 5MB per file.'')))) \<and>
   (get_session db cid = Inr chat \<and> student_session_key chat = ensure_session_key env req \<and>
    status chat \<noteq> STUDENT_LEFT \<and> req_method req = POST \<and>
    post_action req = Some ''send_message'' \<and>
    well_formed_utf8 (post_content req) \<and> content_field (post_content req) = Inr c \<and>
    length (req_files req) = 10 \<and>
    (\<forall>f\<in>set (req_files req). upload_size f = 2 * 1024 * 1024 \<and> single_file_clean f = Inr f) \<longrightarrow>
      fst (student_chat env req cid db) = Json_success \<and>
      length (attachments (snd (student_chat env req cid db))) = length (attachments db) + 10 \<and>
      (\<exists>extra. messages (snd (student_chat env req cid db)) =
         messages db @
         \<lparr>message_id = next_message_id db, message_chat = cid, sender_name = student_name chat,
           sender_user = None, content = c, timestamp = auto_now env 0, is_from_student = True,
           message_type = ''text''\<rparr> # extra)) \<and>
   (req_user req = Some u \<and> get_session db cid = Inr chat \<and> is_technician_of u chat \<and>
    status chat = ACTIVE \<and> req_method req = POST \<and>
    post_action req = Some ''send_message'' \<and>
    well_formed_utf8 (post_content req) \<and> content_field (post_content req) = Inr c \<and>
    length (req_files req) = 10 \<and>
    (\<forall>f\<in>set (req_files req). upload_size f = 2 * 1024 * 1024 \<and> single_file_clean f = Inr f) \<longrightarrow>
      fst (technician_chat env req cid db) = Json_success \<and>
      length (attachments (snd (technician_chat env req cid db))) = length (attachments db) + 10 \<and>
      messages (snd (technician_chat env req cid db)) =
         messages db @
         [\<lparr>message_id = next_message_id db, message_chat = cid, sender_name = full_name u,
           sender_user = pk u, content = c, timestamp = auto_now env 0, is_from_student = False,
           message_type = ''text''\<rparr>])"
proof (intro conjI impI)
  assume h: "((\<exists>f\<in>set (req_files req). 5 * 1024 * 1024 < upload_size f) \<or>
     25 * 1024 * 1024 < sum_list (map upload_size (req_files req)) \<or>
     10 < length (req_files req)) \<and>
    req_method req = POST \<and> post_action req = Some ''send_message''"
  then have "\<not> ((\<forall>f\<in>set (req_files req). upload_size f \<le> max_file_size) \<and>
      sum_list (map upload_size (req_files req)) \<le> max_total_size \<and> length (req_files req) \<le> 10)"
    by (fastforce simp: max_file_size_def max_total_size_def)
  then have "clean_attachments (req_files req) \<noteq> Inr (req_files req)"
    by (simp only: clean_attachments_accepts not_False_eq_True)
  then have none: "ChatMessageForm_cleaned (post_content req) (req_files req) = None"
    by (rule form_rejects)
  from student_chat_invalid_form[OF none] h
  show "snd (student_chat env req cid db) = db"
    and "fst (student_chat env req cid db) \<noteq> Json_success" by auto
  from technician_chat_invalid_form[OF none] h
  show "snd (technician_chat env req cid db) = db"
    and "fst (technician_chat env req cid db) \<noteq> Json_success" by auto
next
  assume "length files = 11"
  then have "clean_attachments files \<noteq> Inr files"
    by (simp add: clean_attachments_accepts)
  with clean_attachments_cases[of files] show "\<exists>e. clean_attachments files = Inl e"
    by auto
next
  assume h: "length files = 10 \<and> (\<forall>f\<in>set files. upload_size f = 2 * 1024 * 1024)"
  then have "sum_list (map upload_size files) = 10 * (2 * 1024 * 1024)"
    using sum_list_const[of files "2 * 1024 * 1024"] by simp
  with h show "clean_attachments files = Inr files"
    by (simp add: clean_attachments_accepts max_file_size_def max_total_size_def)
next
  assume h: "length files = 10 \<and> (\<forall>f\<in>set files. upload_size f = 3 * 1024 * 1024)"
  then have total: "sum_list (map upload_size files) = 10 * (3 * 1024 * 1024)"
    using sum_list_const[of files "3 * 1024 * 1024"] by simp
  from h have "\<forall>f\<in>set files. upload_size f \<le> max_file_size"
    by (simp add: max_file_size_def)
  from sum_sizes_ok[OF this, of 0] total h
  show "clean_attachments files =
        Inl (ValidationError (emoji_no_entry @ '' Total file size exceeds 25MB limit''))"
    by (auto simp: clean_attachments_def max_total_size_def)
next
  assume "\<exists>f\<in>set files. 5 * 1024 * 1024 < upload_size f"
  then have big: "\<exists>f\<in>set files. upload_size f > max_file_size"
    by (simp add: max_file_size_def)
  then have ne: "files \<noteq> []" by auto
  from sum_sizes_too_large[OF big, of 0] ne
  show "\<exists>f\<in>set files. 5 * 1024 * 1024 < upload_size f \<and>
         clean_attachments files =
           Inl (ValidationError (emoji_no_entry @ '' File '' @ [CHR 0x22] @ upload_name f @
             [CHR 0x22] @ '' is too large. Maximum size is 5MB per file.''))"
    by (auto simp: clean_attachments_def max_file_size_def)
next
  assume h: "get_session db cid = Inr chat \<and> student_session_key chat = ensure_session_key env req \<and>
    status chat \<noteq> STUDENT_LEFT \<and> req_method req = POST \<and>
    post_action req = Some ''send_message'' \<and>
    well_formed_utf8 (post_content req) \<and> content_field (post_content req) = Inr c \<and>
    length (req_files req) = 10 \<and>
    (\<forall>f\<in>set (req_files req). upload_size f = 2 * 1024 * 1024 \<and> single_file_clean f = Inr f)"
  then have ok: "ChatMessageForm_cleaned (post_content req) (req_files req) = Some c"
    by (intro ten_files_accepted) auto
  from h student_chat_valid_form[OF _ _ _ _ _ ok, of db cid chat env]
  show "fst (student_chat env req cid db) = Json_success"
    and "length (attachments (snd (student_chat env req cid db))) = length (attachments db) + 10"
    and "\<exists>extra. messages (snd (student_chat env req cid db)) =
         messages db @
         \<lparr>message_id = next_message_id db, message_chat = cid, sender_name = student_name chat,
           sender_user = None, content = c, timestamp = auto_now env 0, is_from_student = True,
           message_type = ''text''\<rparr> # extra"
    by auto
next
  assume h: "req_user req = Some u \<and> get_session db cid = Inr chat \<and> is_technician_of u chat \<and>
    status chat = ACTIVE \<and> req_method req = POST \<and>
    post_action req = Some ''send_message'' \<and>
    well_formed_utf8 (post_content req) \<and> content_field (post_content req) = Inr c \<and>
    length (req_files req) = 10 \<and>
    (\<forall>f\<in>set (req_files req). upload_size f = 2 * 1024 * 1024 \<and> single_file_clean f = Inr f)"
  then have ok: "ChatMessageForm_cleaned (post_content req) (req_files req) = Some c"
    by (intro ten_files_accepted) auto
  from h technician_chat_valid_form[OF _ _ _ _ _ _ ok, of u db cid chat env]
  show "fst (technician_chat env req cid db) = Json_success"
    and "length (attachments (snd (technician_chat env req cid db))) = length (attachments db) + 10"
    and "messages (snd (technician_chat env req cid db)) =
         messages db @
         [\<lparr>message_id = next_message_id db, message_chat = cid, sender_name = full_name u,
           sender_user = pk u, content = c, timestamp = auto_now env 0, is_from_student = False,
           message_type = ''text''\<rparr>]"
    by auto
qed

lemma content_field_demo:
  "content_field ''see attached'' = Inr ''see attached''"
  "content_field ''hello'' = Inr ''hello''"
  by (simp_all add: content_field_def CharField_clean_def clean_content_def py_strip_def
      strip_leading.simps whitespace_def py_len_def is_continuation_def
      emoji_replacements_def py_replace.simps utf8_def)

lemma single_file_clean_png: "0 < n \<Longrightarrow> single_file_clean (png_file n) = Inr (png_file n)"
  by (simp add: single_file_clean_def png_file_def file_extension_def path_suffix_def py_lower_def
      lower_char_def allowed_extensions_def Let_def)

lemma get_session_demo: "get_session demo_db demo_id = Inr demo_chat"
  by (simp add: get_session_def demo_db_def demo_chat_def)

theorem post_message_attachment_limits_witness:
  "snd (student_chat (demo_env (monday_at 10 0))
          (student_request POST (Some ''sk-alice'') (Some ''send_message'') (replicate 11 (png_file 1)))
          demo_id demo_db) = demo_db \<and>
   snd (technician_chat (demo_env (monday_at 10 0))
          ((staff_request POST 7 (Some ''send_message''))\<lparr>req_files := replicate 11 (png_file 1)\<rparr>)
          demo_id demo_db) = demo_db \<and>
   fst (technician_chat (demo_env (monday_at 10 0))
          ((staff_request POST 7 (Some ''send_message''))\<lparr>req_files := replicate 11 (png_file 1)\<rparr>)
          demo_id demo_db) \<noteq> Json_success \<and>
   fst (student_chat (demo_env (monday_at 10 0))
          (student_request POST (Some ''sk-alice'') (Some ''send_message'')
             (replicate 10 (png_file (2 * 1024 * 1024))))
          demo_id demo_db) = Json_success \<and>
   length (attachments (snd (student_chat (demo_env (monday_at 10 0))
          (student_request POST (Some ''sk-alice'') (Some ''send_message'')
             (replicate 10 (png_file (2 * 1024 * 1024))))
          demo_id demo_db))) = 11 \<and>
   fst (technician_chat (demo_env (monday_at 10 0))
          ((staff_request POST 7 (Some ''send_message''))\<lparr>req_files := replicate 10 (png_file (2 * 1024 * 1024))\<rparr>)
          demo_id demo_db) = Json_success \<and>
   length (attachments (snd (technician_chat (demo_env (monday_at 10 0))
          ((staff_request POST 7 (Some ''send_message''))\<lparr>req_files := replicate 10 (png_file (2 * 1024 * 1024))\<rparr>)
          demo_id demo_db))) = 11"
proof -
  let ?env = "demo_env (monday_at 10 0)"
  let ?r11 = "student_request POST (Some ''sk-alice'') (Some ''send_message'') (replicate 11 (png_file 1))"
  let ?r10 = "student_request POST (Some ''sk-alice'') (Some ''send_message'')
             (replicate 10 (png_file (2 * 1024 * 1024)))"
  let ?t11 = "(staff_request POST 7 (Some ''send_message''))\<lparr>req_files := replicate 11 (png_file 1)\<rparr>"
  let ?t10 = "(staff_request POST 7 (Some ''send_message''))\<lparr>req_files := replicate 10 (png_file (2 * 1024 * 1024))\<rparr>"
  let ?u = "\<lparr>pk = Some 7, full_name = ''Tess Tech''\<rparr>"
  have a: "((\<exists>f\<in>set (req_files ?r11). 5 * 1024 * 1024 < upload_size f) \<or>
     25 * 1024 * 1024 < sum_list (map upload_size (req_files ?r11)) \<or>
     10 < length (req_files ?r11)) \<and>
    req_method ?r11 = POST \<and> post_action ?r11 = Some ''send_message''"
    by (simp add: student_request_def)
  have a': "((\<exists>f\<in>set (req_files ?t11). 5 * 1024 * 1024 < upload_size f) \<or>
     25 * 1024 * 1024 < sum_list (map upload_size (req_files ?t11)) \<or>
     10 < length (req_files ?t11)) \<and>
    req_method ?t11 = POST \<and> post_action ?t11 = Some ''send_message''"
    by (simp add: staff_request_def)
  have b: "get_session demo_db demo_id = Inr demo_chat \<and>
    student_session_key demo_chat = ensure_session_key ?env ?r10 \<and>
    status demo_chat \<noteq> STUDENT_LEFT \<and> req_method ?r10 = POST \<and>
    post_action ?r10 = Some ''send_message'' \<and>
    well_formed_utf8 (post_content ?r10) \<and>
    content_field (post_content ?r10) = Inr ''see attached'' \<and>
    length (req_files ?r10) = 10 \<and>
    (\<forall>f\<in>set (req_files ?r10). upload_size f = 2 * 1024 * 1024 \<and> single_file_clean f = Inr f)"
    using get_session_demo content_field_demo single_file_clean_png[of "2 * 1024 * 1024"]
    by (simp add: student_request_def demo_chat_def ensure_session_key_def png_file_def)
  have b': "req_user ?t10 = Some ?u \<and> get_session demo_db demo_id = Inr demo_chat \<and>
    is_technician_of ?u demo_chat \<and> status demo_chat = ACTIVE \<and> req_method ?t10 = POST \<and>
    post_action ?t10 = Some ''send_message'' \<and>
    well_formed_utf8 (post_content ?t10) \<and>
    content_field (post_content ?t10) = Inr ''hello'' \<and>
    length (req_files ?t10) = 10 \<and>
    (\<forall>f\<in>set (req_files ?t10). upload_size f = 2 * 1024 * 1024 \<and> single_file_clean f = Inr f)"
    using get_session_demo content_field_demo single_file_clean_png[of "2 * 1024 * 1024"]
    by (simp add: staff_request_def demo_chat_def is_technician_of_def png_file_def)
  have n: "length (attachments demo_db) = 1"
    by (simp add: demo_db_def)
  from post_message_attachment_limits
    [where req = ?r11 and env = ?env and cid = demo_id and db = demo_db] a
  have r1: "snd (student_chat ?env ?r11 demo_id demo_db) = demo_db"
    by blast
  from post_message_attachment_limits
    [where req = ?t11 and env = ?env and cid = demo_id and db = demo_db] a'
  have r1': "snd (technician_chat ?env ?t11 demo_id demo_db) = demo_db \<and>
             fst (technician_chat ?env ?t11 demo_id demo_db) \<noteq> Json_success"
    by blast
  from post_message_attachment_limits
    [where req = ?r10 and env = ?env and cid = demo_id and db = demo_db and chat = demo_chat
       and c = "''see attached''"] b
  have r2: "fst (student_chat ?env ?r10 demo_id demo_db) = Json_success \<and>
      length (attachments (snd (student_chat ?env ?r10 demo_id demo_db))) =
        length (attachments demo_db) + 10"
    by blast
  from post_message_attachment_limits
    [where req = ?t10 and env = ?env and cid = demo_id and db = demo_db and chat = demo_chat
       and c = "''hello''" and u = ?u] b'
  have r2': "fst (technician_chat ?env ?t10 demo_id demo_db) = Json_success \<and>
      length (attachments (snd (technician_chat ?env ?t10 demo_id demo_db))) =
        length (attachments demo_db) + 10"
    by blast
  from r1 r1' r2 r2' n show ?thesis
    by simp
qed

section \<open>Properties of chat sessions\<close>

subsection \<open>Joining technicians\<close>

lemma count_list_distinct: "distinct ts \<Longrightarrow> k \<in> set ts \<Longrightarrow> count_list ts k = 1"
  by (induction ts) auto

lemma count_technicians_add:
  "distinct ts \<Longrightarrow> count_list (technicians_add ts k) j = (if j = k then 1 else count_list ts j)"
  by (auto simp: technicians_add_def count_list_distinct)

lemma distinct_technicians_add: "distinct ts \<Longrightarrow> distinct (technicians_add ts k)"
  by (simp add: technicians_add_def)

lemma technicians_add_idem: "technicians_add (technicians_add ts k) k = technicians_add ts k"
  by (simp add: technicians_add_def)

text \<open>
  Claim C3. For a session whose technicians are related to it once each (the relation
  table holds a pair once) and a user who is a row of the user table,
  \<open>add_technician\<close> succeeds; a second call with the same user succeeds and changes
  nothing; the user is then related to the session exactly once and every other user as
  before; the status is \<open>ACTIVE\<close> when it was \<open>WAITING\<close> and is the old status
  otherwise; no other column changes.
\<close>

theorem add_technician_idempotent:
  assumes "pk u = Some k" and "k \<in> set (users db)" and "0 < k"
    and "distinct (technicians s)"
  shows "\<exists>s1. add_technician db s u = Inr s1 \<and> add_technician db s1 u = Inr s1 \<and>
           count_list (technicians s1) k = 1 \<and>
           (\<forall>j. j \<noteq> k \<longrightarrow> count_list (technicians s1) j = count_list (technicians s) j) \<and>
           status s1 = (if status s = WAITING then ACTIVE else status s) \<and>
           s1 = s\<lparr>technicians := technicians s1, status := status s1\<rparr>"
proof -
  let ?s1 = "s\<lparr>technicians := technicians_add (technicians s) k,
                status := (if status s = WAITING then ACTIVE else status s)\<rparr>"
  have first: "add_technician db s u = Inr ?s1"
    using assms(1-3) by (simp add: add_technician_def Let_def)
  have second: "add_technician db ?s1 u = Inr ?s1"
    using assms(1-3) by (simp add: add_technician_def Let_def technicians_add_idem)
  have "count_list (technicians ?s1) k = 1"
    and "\<forall>j. j \<noteq> k \<longrightarrow> count_list (technicians ?s1) j = count_list (technicians s) j"
    using assms(4) by (simp_all add: count_technicians_add)
  with first second show ?thesis
    by (intro exI[of _ ?s1]) simp
qed

theorem add_technician_idempotent_witness:
  "add_technician demo_db (demo_chat\<lparr>status := WAITING, technicians := []\<rparr>)
       \<lparr>pk = Some 8, full_name = ''Tess Tech''\<rparr> =
     Inr (demo_chat\<lparr>status := ACTIVE, technicians := [8]\<rparr>) \<and>
   add_technician demo_db (demo_chat\<lparr>status := ACTIVE, technicians := [8]\<rparr>)
       \<lparr>pk = Some 8, full_name = ''Tess Tech''\<rparr> =
     Inr (demo_chat\<lparr>status := ACTIVE, technicians := [8]\<rparr>) \<and>
   (\<exists>s1. add_technician demo_db (demo_chat\<lparr>status := STUDENT_LEFT\<rparr>)
            \<lparr>pk = Some 8, full_name = ''Tess Tech''\<rparr> = Inr s1 \<and>
          count_list (technicians s1) 8 = 1 \<and> status s1 = STUDENT_LEFT)"
proof -
  let ?u = "\<lparr>pk = Some 8, full_name = ''Tess Tech''\<rparr>"
  have u: "pk ?u = Some 8" and k: "(8::nat) \<in> set (users demo_db)" and p: "(0::nat) < 8"
    by (simp_all add: demo_db_def)
  have d1: "distinct (technicians (demo_chat\<lparr>status := WAITING, technicians := []\<rparr>))"
    and d2: "distinct (technicians (demo_chat\<lparr>status := STUDENT_LEFT\<rparr>))"
    by (simp_all add: demo_chat_def)
  from add_technician_idempotent [OF u k p d1]
  obtain s1 where s1: "add_technician demo_db (demo_chat\<lparr>status := WAITING, technicians := []\<rparr>) ?u = Inr s1"
    and again: "add_technician demo_db s1 ?u = Inr s1"
    by blast
  have v: "add_technician demo_db (demo_chat\<lparr>status := WAITING, technicians := []\<rparr>) ?u =
      Inr (demo_chat\<lparr>status := ACTIVE, technicians := [8]\<rparr>)"
    by (simp add: add_technician_def demo_db_def demo_chat_def technicians_add_def)
  with s1 again have "add_technician demo_db (demo_chat\<lparr>status := ACTIVE, technicians := [8]\<rparr>) ?u =
      Inr (demo_chat\<lparr>status := ACTIVE, technicians := [8]\<rparr>)"
    by simp
  moreover from add_technician_idempotent [OF u k p d2]
  have "\<exists>s1. add_technician demo_db (demo_chat\<lparr>status := STUDENT_LEFT\<rparr>) ?u = Inr s1 \<and>
          count_list (technicians s1) 8 = 1 \<and> status s1 = STUDENT_LEFT"
    by auto
  ultimately show ?thesis
    using v by blast
qed

subsection \<open>Closing a chat\<close>

lemma get_session_absent:
  "\<forall>c\<in>set (sessions db). chat_id c \<noteq> cid \<Longrightarrow> get_session db cid = Inl DoesNotExist"
proof -
  assume "\<forall>c\<in>set (sessions db). chat_id c \<noteq> cid"
  then have "filter (\<lambda>c. chat_id c = cid) (sessions db) = []"
    by (induction "sessions db") (auto simp: filter_empty_conv)
  then show ?thesis
    by (simp add: get_session_def)
qed

lemma delete_session_tables:
  "sessions (delete_session db cid) = filter (\<lambda>c. chat_id c \<noteq> cid) (sessions db)"
  "set (messages (delete_session db cid)) \<subseteq> {m \<in> set (messages db). message_chat m \<noteq> cid}"
  "set (attachments (delete_session db cid)) \<subseteq> {a \<in> set (attachments db). attachment_chat a \<noteq> cid}"
  by (auto simp: delete_session_def cleanup_files_def delete_messages_of_def
      delete_attachments_of_def Let_def)

lemma student_chat_404:
  "get_session db cid = Inl DoesNotExist \<Longrightarrow> student_chat env req cid db = (Http404, db)"
  by (simp add: student_chat_def)

lemma technician_chat_404:
  "get_session db cid = Inl DoesNotExist \<Longrightarrow> req_user req \<noteq> None \<Longrightarrow>
     technician_chat env req cid db = (Http404, db)"
  by (auto simp: technician_chat_def)

lemma join_chat_404:
  "get_session db cid = Inl DoesNotExist \<Longrightarrow> req_user req \<noteq> None \<Longrightarrow>
     join_chat env req cid db = (Http404, db)"
  by (auto simp: join_chat_def)

lemma chat_messages_api_404:
  "get_session db cid = Inl DoesNotExist \<Longrightarrow> req_method req = GET \<Longrightarrow>
     chat_messages_api req cid db = Http404"
  by (simp add: chat_messages_api_def)

lemma close_chat_result:
  assumes "req_user req = Some u" and "get_session db cid = Inr chat"
    and "is_technician_of u chat" and "req_method req = POST"
    and "post_action req = Some ''close_chat''"
  shows "snd (technician_chat env req cid db) =
     delete_session
       (delete_messages_of
          (delete_attachments_of (save_session db (chat\<lparr>status := CLOSED\<rparr>)) cid) cid) cid"
  using assms by (simp add: technician_chat_def Let_def)

text \<open>
  Claim C4. When a technician of the session posts \<open>close_chat\<close>, the view marks the
  session closed, deletes its attachments, then its messages, then the session itself.
  In the database it leaves, no attachment, no message and no session carries the
  identifier; the lookup raises DoesNotExist; the student's view answers 404 to every
  request, and so do the message API to every GET request and the technician's views to
  every signed-in user.
\<close>

theorem close_chat_purges_session:
  assumes "req_user req = Some u" and "get_session db cid = Inr chat"
    and "is_technician_of u chat" and "req_method req = POST"
    and "post_action req = Some ''close_chat''"
  shows "snd (technician_chat env req cid db) =
           delete_session
             (delete_messages_of
                (delete_attachments_of (save_session db (chat\<lparr>status := CLOSED\<rparr>)) cid) cid) cid \<and>
         (\<forall>a\<in>set (attachments (snd (technician_chat env req cid db))). attachment_chat a \<noteq> cid) \<and>
         (\<forall>m\<in>set (messages (snd (technician_chat env req cid db))). message_chat m \<noteq> cid) \<and>
         (\<forall>c\<in>set (sessions (snd (technician_chat env req cid db))). chat_id c \<noteq> cid) \<and>
         get_session (snd (technician_chat env req cid db)) cid = Inl DoesNotExist \<and>
         (\<forall>env1 req1. fst (student_chat env1 req1 cid (snd (technician_chat env req cid db))) = Http404) \<and>
         (\<forall>req1. req_method req1 = GET \<longrightarrow>
            chat_messages_api req1 cid (snd (technician_chat env req cid db)) = Http404) \<and>
         (\<forall>env1 req1. req_user req1 \<noteq> None \<longrightarrow>
            fst (technician_chat env1 req1 cid (snd (technician_chat env req cid db))) = Http404 \<and>
            fst (join_chat env1 req1 cid (snd (technician_chat env req cid db))) = Http404)"
proof -
  let ?db = "snd (technician_chat env req cid db)"
  note r = close_chat_result[OF assms, of env]
  have s: "\<forall>c\<in>set (sessions ?db). chat_id c \<noteq> cid"
    unfolding r by (simp add: delete_session_tables(1))
  have m: "\<forall>m\<in>set (messages ?db). message_chat m \<noteq> cid"
    unfolding r using delete_session_tables(2) by fastforce
  have a: "\<forall>a\<in>set (attachments ?db). attachment_chat a \<noteq> cid"
    unfolding r using delete_session_tables(3) by fastforce
  have g: "get_session ?db cid = Inl DoesNotExist"
    using s by (rule get_session_absent)
  show ?thesis
    using r s m a g
    by (simp add: student_chat_404 technician_chat_404 join_chat_404 chat_messages_api_404)
qed

theorem close_chat_purges_session_witness:
  "snd (technician_chat (demo_env (monday_at 10 0)) (staff_request POST 7 (Some ''close_chat''))
          demo_id demo_db) =
     demo_db\<lparr>sessions := [], messages := [], attachments := []\<rparr> \<and>
   get_session (snd (technician_chat (demo_env (monday_at 10 0))
          (staff_request POST 7 (Some ''close_chat'')) demo_id demo_db)) demo_id = Inl DoesNotExist \<and>
   fst (student_chat (demo_env (monday_at 10 0)) (student_request GET (Some ''sk-alice'') None [])
          demo_id
          (snd (technician_chat (demo_env (monday_at 10 0))
             (staff_request POST 7 (Some ''close_chat'')) demo_id demo_db))) = Http404"
proof -
  let ?req = "staff_request POST 7 (Some ''close_chat'')"
  let ?u = "\<lparr>pk = Some 7, full_name = ''Tess Tech''\<rparr>"
  have 1: "req_user ?req = Some ?u" and 4: "req_method ?req = POST"
    and 5: "post_action ?req = Some ''close_chat''"
    by (simp_all add: staff_request_def)
  have 2: "get_session demo_db demo_id = Inr demo_chat"
    by (simp add: get_session_def demo_db_def demo_chat_def)
  have 3: "is_technician_of ?u demo_chat"
    by (simp add: is_technician_of_def demo_chat_def)
  note T = close_chat_purges_session [OF 1 2 3 4 5, of "demo_env (monday_at 10 0)"]
  have "delete_session
          (delete_messages_of
             (delete_attachments_of (save_session demo_db (demo_chat\<lparr>status := CLOSED\<rparr>)) demo_id)
             demo_id) demo_id =
        demo_db\<lparr>sessions := [], messages := [], attachments := []\<rparr>"
    by (simp add: delete_session_def cleanup_files_def delete_messages_of_def
        delete_attachments_of_def save_session_def demo_db_def demo_chat_def Let_def)
  with T have a: "snd (technician_chat (demo_env (monday_at 10 0)) ?req demo_id demo_db) =
      demo_db\<lparr>sessions := [], messages := [], attachments := []\<rparr>"
    by presburger
  from T have b: "get_session (snd (technician_chat (demo_env (monday_at 10 0)) ?req demo_id demo_db))
      demo_id = Inl DoesNotExist"
    by blast
  from T have c: "fst (student_chat (demo_env (monday_at 10 0))
      (student_request GET (Some ''sk-alice'') None []) demo_id
      (snd (technician_chat (demo_env (monday_at 10 0)) ?req demo_id demo_db))) = Http404"
    by blast
  from a b c show ?thesis
    by blast
qed

subsection \<open>Starting a chat\<close>












lemma next_days_Inr: "\<exists>s. next_days st cd xs = Inr s"
proof (induction xs)
  case Nil
  then show ?case by simp
next
  case (Cons i xs)
  have "map_of DAYS_OF_WEEK ((cd + i) mod 7) = Some (get_day_of_week_display ((cd + i) mod 7))"
    by (rule map_of_DAYS_OF_WEEK) simp
  with Cons show ?case
    by (auto simp: Let_def split: option.splits)
qed

lemma get_next_available_time_Inr: "\<exists>s. get_next_available_time st now = Inr s"
  using next_days_Inr[of st "weekday (local_ordinal now)" "[1..<8]"]
  by (auto simp: get_next_available_time_def Let_def split: option.splits)















subsection \<open>The student token\<close>

lemma get_session_unique:
  assumes "get_session db cid = Inr chat"
  shows "filter (\<lambda>c. chat_id c = cid) (sessions db) = [chat]"
  using assms by (auto simp: get_session_def split: list.splits)

lemma get_session_row:
  assumes "get_session db cid = Inr chat"
  shows "chat \<in> set (sessions db)" and "chat_id chat = cid"
    and "\<And>r. r \<in> set (sessions db) \<Longrightarrow> chat_id r = cid \<Longrightarrow> r = chat"
proof -
  note f = get_session_unique[OF assms]
  have "chat \<in> set (filter (\<lambda>c. chat_id c = cid) (sessions db))"
    by (simp add: f)
  then show "chat \<in> set (sessions db)" and "chat_id chat = cid"
    by simp_all
  fix r
  assume "r \<in> set (sessions db)" and "chat_id r = cid"
  then have "r \<in> set (filter (\<lambda>c. chat_id c = cid) (sessions db))"
    by simp
  then show "r = chat"
    by (simp add: f)
qed

lemma filter_save:
  "chat_id c = cid \<Longrightarrow>
   filter (\<lambda>x. chat_id x = cid) (map (\<lambda>r. if chat_id r = cid then c else r) xs) =
     map (\<lambda>_. c) (filter (\<lambda>x. chat_id x = cid) xs)"
  by (induction xs) auto

lemma get_session_save:
  assumes "get_session db cid = Inr chat" and "chat_id c = cid"
  shows "get_session (save_session db c) cid = Inr c"
  using get_session_unique[OF assms(1)] assms(2)
  by (simp add: get_session_def save_session_def filter_save)

lemma tokens_kept_refl: "tokens_kept db db"
  by (auto simp: tokens_kept_def)

lemma tokens_kept_trans:
  assumes "tokens_kept db db1" and "tokens_kept db1 db2"
  shows "tokens_kept db db2"
  unfolding tokens_kept_def
proof
  fix s2
  assume "s2 \<in> set (sessions db2)"
  with assms(2) obtain s1 where s1: "s1 \<in> set (sessions db1)" "chat_id s1 = chat_id s2"
      "student_session_key s1 = [] \<or> student_session_key s2 = student_session_key s1"
    by (auto simp: tokens_kept_def)
  with assms(1) obtain s where s: "s \<in> set (sessions db)" "chat_id s = chat_id s1"
      "student_session_key s = [] \<or> student_session_key s1 = student_session_key s"
    by (auto simp: tokens_kept_def)
  from s1 s show "\<exists>s\<in>set (sessions db). chat_id s = chat_id s2 \<and>
      (student_session_key s = [] \<or> student_session_key s2 = student_session_key s)"
    by (intro bexI[of _ s]) auto
qed

lemma tokens_kept_sessions:
  "set (sessions db1) \<subseteq> set (sessions db) \<Longrightarrow> tokens_kept db db1"
  by (auto simp: tokens_kept_def)

lemma tokens_kept_save:
  assumes "get_session db cid = Inr chat" and "chat_id c = cid"
    and "student_session_key chat = [] \<or> student_session_key c = student_session_key chat"
  shows "tokens_kept db (save_session db c)"
  unfolding tokens_kept_def
proof
  fix s1
  assume "s1 \<in> set (sessions (save_session db c))"
  then obtain r where r: "r \<in> set (sessions db)" "s1 = (if chat_id r = chat_id c then c else r)"
    by (auto simp: save_session_def)
  show "\<exists>s\<in>set (sessions db). chat_id s = chat_id s1 \<and>
      (student_session_key s = [] \<or> student_session_key s1 = student_session_key s)"
  proof (cases "chat_id r = chat_id c")
    case True
    with r assms(2) get_session_row(3)[OF assms(1), of r] have "r = chat" and "s1 = c"
      by simp_all
    with r(1) True assms(3) show ?thesis
      by (intro bexI[of _ r]) auto
  next
    case False
    with r show ?thesis
      by (intro bexI[of _ r]) auto
  qed
qed

lemma sessions_writes [simp]:
  "sessions (create_message db cid sender k txt fs kind stamp) = sessions db"
  "sessions (create_attachments db cid mid bs files) = sessions db"
  "sessions (delete_attachments_of db cid) = sessions db"
  "sessions (delete_messages_of db cid) = sessions db"
  by (simp_all add: create_message_def create_attachments_def delete_attachments_of_def
      delete_messages_of_def Let_def)

lemma get_session_writes [simp]:
  "get_session (create_message db cid1 sender k txt fs kind stamp) cid = get_session db cid"
  "get_session (create_attachments db cid1 mid bs files) cid = get_session db cid"
  "get_session (delete_attachments_of db cid1) cid = get_session db cid"
  "get_session (delete_messages_of db cid1) cid = get_session db cid"
  by (simp_all add: get_session_def)

lemma tokens_kept_writes:
  "tokens_kept db db1 \<Longrightarrow> tokens_kept db (create_message db1 cid sender k txt fs kind stamp)"
  "tokens_kept db db1 \<Longrightarrow> tokens_kept db (create_attachments db1 cid mid bs files)"
  "tokens_kept db db1 \<Longrightarrow> tokens_kept db (delete_attachments_of db1 cid)"
  "tokens_kept db db1 \<Longrightarrow> tokens_kept db (delete_messages_of db1 cid)"
  "tokens_kept db db1 \<Longrightarrow> tokens_kept db (delete_session db1 cid)"
  by (auto simp: tokens_kept_def delete_session_tables(1))

lemma student_access_kept:
  assumes "get_session db cid = Inr chat0"
    and "student_access tok meth chat0 db = (granted, chat, db0)"
  shows "tokens_kept db db0" and "get_session db0 cid = Inr chat"
proof -
  have id: "chat_id chat0 = cid"
    by (rule get_session_row(2)[OF assms(1)])
  show "tokens_kept db db0"
    using assms(2) tokens_kept_save[OF assms(1), of "chat0\<lparr>student_session_key := tok\<rparr>"] id
    by (auto simp: student_access_def Let_def tokens_kept_refl split: if_splits)
  show "get_session db0 cid = Inr chat"
    using assms get_session_save[OF assms(1), of "chat0\<lparr>student_session_key := tok\<rparr>"] id
    by (auto simp: student_access_def Let_def split: if_splits)
qed

lemma student_chat_tokens_kept: "tokens_kept db (snd (student_chat env req cid db))"
proof (cases "get_session db cid")
  case (Inl e)
  then show ?thesis
    by (cases e) (simp_all add: student_chat_def tokens_kept_refl)
next
  case (Inr chat0)
  obtain granted chat db0 where
    a: "student_access (ensure_session_key env req) (req_method req) chat0 db = (granted, chat, db0)"
    by (cases "student_access (ensure_session_key env req) (req_method req) chat0 db") auto
  note k = student_access_kept[OF Inr a]
  have id: "chat_id chat = cid"
    by (rule get_session_row(2)[OF k(2)])
  have leave: "tokens_kept db (save_session db0 (chat\<lparr>status := STUDENT_LEFT\<rparr>))"
    by (rule tokens_kept_trans[OF k(1)]) (rule tokens_kept_save[OF k(2)], simp_all add: id)
  show ?thesis
    using Inr a k(1) leave
    by (auto simp: student_chat_def Let_def tokens_kept_refl tokens_kept_writes
        split: prod.splits option.splits)
qed

lemma join_chat_tokens_kept: "tokens_kept db (snd (join_chat env req cid db))"
proof (cases "req_user req")
  case None
  then show ?thesis by (simp add: join_chat_def tokens_kept_refl)
next
  case (Some u)
  show ?thesis
  proof (cases "get_session db cid")
    case (Inl e)
    with Some show ?thesis
      by (cases e) (simp_all add: join_chat_def tokens_kept_refl)
  next
    case (Inr chat)
    have id: "chat_id chat = cid"
      by (rule get_session_row(2)[OF Inr])
    have add: "tokens_kept db (save_session db c)"
      if "add_technician db chat u = Inr c" for c
      using that
      by (intro tokens_kept_save[OF Inr])
         (auto simp: add_technician_def Let_def id split: option.splits if_splits)
    have rel: "tokens_kept db (save_session db (chat\<lparr>technicians := ts\<rparr>))" for ts
      by (rule tokens_kept_save[OF Inr]) (simp_all add: id)
    show ?thesis
      using Some Inr add rel
      by (auto simp: join_chat_def tokens_kept_refl tokens_kept_writes
          split: sum.splits option.splits)
  qed
qed

lemma technician_chat_tokens_kept: "tokens_kept db (snd (technician_chat env req cid db))"
proof (cases "req_user req")
  case None
  then show ?thesis by (simp add: technician_chat_def tokens_kept_refl)
next
  case (Some u)
  show ?thesis
  proof (cases "get_session db cid")
    case (Inl e)
    with Some show ?thesis
      by (cases e) (simp_all add: technician_chat_def tokens_kept_refl)
  next
    case (Inr chat)
    have id: "chat_id chat = cid"
      by (rule get_session_row(2)[OF Inr])
    have closed: "tokens_kept db (save_session db (chat\<lparr>status := CLOSED\<rparr>))"
      by (rule tokens_kept_save[OF Inr]) (simp_all add: id)
    show ?thesis
      using Some Inr closed
      by (auto simp: technician_chat_def Let_def tokens_kept_refl tokens_kept_writes
          split: option.splits)
  qed
qed

lemma ChatStatus_lookup_raises: "ChatSession_ChatStatus_CLOSED = Inl AttributeError"
  by (simp add: ChatSession_ChatStatus_CLOSED_def ChatSession_attributes_def)

lemma handle_raises: "handle env days dry_run db = (Inl AttributeError, db)"
  by (simp add: handle_def ChatStatus_lookup_raises)

lemma chat_landing_sessions:
  "sessions (snd (chat_landing env req db)) = sessions db \<or>
   (\<exists>c. sessions (snd (chat_landing env req db)) = sessions db @ [c] \<and>
        chat_id c \<notin> set (map chat_id (sessions db)))"
proof -
  obtain nx where nx: "get_next_available_time (schedule db) (env_clock env) = Inr nx"
    using get_next_available_time_Inr by blast
  show ?thesis
    using nx
    by (auto simp: chat_landing_def create_session_def Let_def
        split: prod.splits option.splits if_splits)
qed

lemma ids_save [simp]: "map chat_id (sessions (save_session db c)) = map chat_id (sessions db)"
  by (simp add: save_session_def comp_def)

lemma ids_delete_session [simp]:
  "map chat_id (sessions (delete_session db cid)) = filter (\<lambda>i. i \<noteq> cid) (map chat_id (sessions db))"
  by (simp add: delete_session_tables(1) filter_map comp_def)

lemma ids_writes [simp]:
  "map chat_id (sessions (create_message db cid sender k txt fs kind stamp)) = map chat_id (sessions db)"
  "map chat_id (sessions (create_attachments db cid mid bs files)) = map chat_id (sessions db)"
  "map chat_id (sessions (delete_attachments_of db cid)) = map chat_id (sessions db)"
  "map chat_id (sessions (delete_messages_of db cid)) = map chat_id (sessions db)"
  by simp_all

lemma student_chat_ids:
  "map chat_id (sessions (snd (student_chat env req cid db))) = map chat_id (sessions db)"
  by (auto simp: student_chat_def student_access_def Let_def
      split: sum.splits py_error.splits prod.splits option.splits)

lemma join_chat_ids:
  "map chat_id (sessions (snd (join_chat env req cid db))) = map chat_id (sessions db)"
  by (auto simp: join_chat_def split: sum.splits py_error.splits option.splits)

lemma technician_chat_ids:
  "map chat_id (sessions (snd (technician_chat env req cid db))) = map chat_id (sessions db) \<or>
   map chat_id (sessions (snd (technician_chat env req cid db))) =
     filter (\<lambda>i. i \<noteq> cid) (map chat_id (sessions db))"
  by (auto simp: technician_chat_def Let_def split: sum.splits py_error.splits option.splits)

lemma step_unique: "unique_chat_ids db \<Longrightarrow> unique_chat_ids (step db op)"
proof (cases op)
  case (Chat_landing env req)
  assume "unique_chat_ids db"
  with Chat_landing chat_landing_sessions[of env req db] show ?thesis
    by (auto simp: unique_chat_ids_def)
next
  case (Student_chat env req cid)
  assume "unique_chat_ids db"
  with Student_chat show ?thesis
    by (simp add: unique_chat_ids_def student_chat_ids)
next
  case (Join_chat env req cid)
  assume "unique_chat_ids db"
  with Join_chat show ?thesis
    by (simp add: unique_chat_ids_def join_chat_ids)
next
  case (Technician_chat env req cid)
  assume "unique_chat_ids db"
  with Technician_chat technician_chat_ids[of env req cid db] show ?thesis
    by (auto simp: unique_chat_ids_def)
next
  case (Chat_messages_api req cid)
  assume "unique_chat_ids db"
  with Chat_messages_api show ?thesis by simp
next
  case (Cleanup_old_chats env days dry_run)
  assume "unique_chat_ids db"
  with Cleanup_old_chats show ?thesis by (simp add: handle_raises)
qed

lemma step_tokens:
  assumes "unique_chat_ids db" and "s \<in> set (sessions db)" and "s1 \<in> set (sessions (step db op))"
    and "student_session_key s \<noteq> []" and "chat_id s1 = chat_id s"
  shows "student_session_key s1 = student_session_key s"
proof -
  have same: "r = s" if "r \<in> set (sessions db)" and "chat_id r = chat_id s" for r
    using that assms(1,2) by (auto simp: unique_chat_ids_def distinct_map inj_on_def)
  have kept: "student_session_key s1 = student_session_key s" if "tokens_kept db (step db op)"
  proof -
    from that assms(3) obtain r where "r \<in> set (sessions db)" "chat_id r = chat_id s1"
      "student_session_key r = [] \<or> student_session_key s1 = student_session_key r"
      by (auto simp: tokens_kept_def)
    with same[of r] assms(4,5) show ?thesis by auto
  qed
  show ?thesis
  proof (cases op)
    case (Chat_landing env req)
    from chat_landing_sessions[of env req db] assms(3) Chat_landing
    have "s1 \<in> set (sessions db) \<or> chat_id s1 \<notin> set (map chat_id (sessions db))"
      by auto
    with assms(2,5) same[of s1] show ?thesis by auto
  next
    case (Student_chat env req cid)
    then show ?thesis using kept student_chat_tokens_kept by simp
  next
    case (Join_chat env req cid)
    then show ?thesis using kept join_chat_tokens_kept by simp
  next
    case (Technician_chat env req cid)
    then show ?thesis using kept technician_chat_tokens_kept by simp
  next
    case (Chat_messages_api req cid)
    then show ?thesis using kept tokens_kept_refl by simp
  next
    case (Cleanup_old_chats env days dry_run)
    then show ?thesis using kept tokens_kept_refl by (simp add: handle_raises)
  qed
qed

lemma student_chat_access:
  assumes "get_session db cid = Inr chat"
  shows "fst (student_chat env req cid db) \<noteq> access_denied \<longleftrightarrow>
     student_session_key chat = ensure_session_key env req \<or>
     (student_session_key chat = [] \<and> req_method req = GET)"
  using assms
  by (auto simp: student_chat_def student_access_def access_denied_def Let_def
      split: prod.splits option.splits)

lemma student_chat_binds:
  assumes "get_session db cid = Inr chat" and "student_session_key chat = []"
    and "req_method req = GET"
  shows "get_session (snd (student_chat env req cid db)) cid =
     Inr (chat\<lparr>student_session_key := ensure_session_key env req\<rparr>)"
proof -
  have id: "chat_id chat = cid"
    by (rule get_session_row(2)[OF assms(1)])
  from get_session_save[OF assms(1), of "chat\<lparr>student_session_key := ensure_session_key env req\<rparr>"] id
  have "get_session (save_session db (chat\<lparr>student_session_key := ensure_session_key env req\<rparr>)) cid =
      Inr (chat\<lparr>student_session_key := ensure_session_key env req\<rparr>)"
    by simp
  with assms show ?thesis
    by (auto simp: student_chat_def student_access_def Let_def split: prod.splits)
qed

text \<open>
  Claim C6. For a session found by its identifier, \<open>student_chat\<close> grants access exactly
  when the stored token equals the caller's token (the session key of the request, made
  when the request has none), or the stored token is empty and the request is a GET; in
  that second case the caller's token is stored in the session. Over a database with
  unique identifiers, no operation changes a non-empty stored token of a session that is
  still there afterwards, and the identifiers stay unique.
\<close>

theorem student_access_first_touch:
  assumes "unique_chat_ids db" and "get_session db cid = Inr chat"
  shows "(fst (student_chat env req cid db) \<noteq> access_denied \<longleftrightarrow>
            student_session_key chat = ensure_session_key env req \<or>
            (student_session_key chat = [] \<and> req_method req = GET)) \<and>
         (student_session_key chat = [] \<and> req_method req = GET \<longrightarrow>
            get_session (snd (student_chat env req cid db)) cid =
              Inr (chat\<lparr>student_session_key := ensure_session_key env req\<rparr>)) \<and>
         (\<forall>op. \<forall>s\<in>set (sessions db). \<forall>s1\<in>set (sessions (step db op)).
            student_session_key s \<noteq> [] \<and> chat_id s1 = chat_id s \<longrightarrow>
            student_session_key s1 = student_session_key s) \<and>
         (\<forall>op. unique_chat_ids (step db op))"
  using student_chat_access[OF assms(2)] student_chat_binds[OF assms(2)]
    step_tokens[OF assms(1)] step_unique[OF assms(1)]
  by blast

theorem student_access_first_touch_witness:
  "fst (student_chat (demo_env (monday_at 10 0)) (student_request GET (Some ''sk-bob'') None [])
          demo_id (demo_db\<lparr>sessions := [demo_chat\<lparr>student_session_key := []\<rparr>]\<rparr>)) \<noteq> access_denied \<and>
   get_session
     (snd (student_chat (demo_env (monday_at 10 0)) (student_request GET (Some ''sk-bob'') None [])
          demo_id (demo_db\<lparr>sessions := [demo_chat\<lparr>student_session_key := []\<rparr>]\<rparr>))) demo_id =
     Inr (demo_chat\<lparr>student_session_key := ''sk-bob''\<rparr>) \<and>
   fst (student_chat (demo_env (monday_at 10 0))
          (student_request POST (Some ''sk-bob'') (Some ''send_message'') [])
          demo_id (demo_db\<lparr>sessions := [demo_chat\<lparr>student_session_key := []\<rparr>]\<rparr>)) = access_denied \<and>
   fst (student_chat (demo_env (monday_at 10 0)) (student_request GET (Some ''sk-bob'') None [])
          demo_id demo_db) = access_denied \<and>
   list_all (\<lambda>s1. student_session_key s1 = ''sk-alice'')
     (sessions (step demo_db
        (Student_chat (demo_env (monday_at 10 0)) (student_request GET (Some ''sk-bob'') None [])
           demo_id)))"
proof -
  let ?env = "demo_env (monday_at 10 0)"
  let ?get = "student_request GET (Some ''sk-bob'') None []"
  let ?post = "student_request POST (Some ''sk-bob'') (Some ''send_message'') []"
  let ?db0 = "demo_db\<lparr>sessions := [demo_chat\<lparr>student_session_key := []\<rparr>]\<rparr>"
  have u0: "unique_chat_ids ?db0" and u: "unique_chat_ids demo_db"
    by (simp_all add: unique_chat_ids_def demo_db_def)
  have g0: "get_session ?db0 demo_id = Inr (demo_chat\<lparr>student_session_key := []\<rparr>)"
    and g: "get_session demo_db demo_id = Inr demo_chat"
    by (simp_all add: get_session_def demo_db_def demo_chat_def)
  have k: "ensure_session_key ?env ?get = ''sk-bob''" "ensure_session_key ?env ?post = ''sk-bob''"
    "req_method ?get = GET" "req_method ?post = POST"
    "student_session_key demo_chat = ''sk-alice''"
    by (simp_all add: ensure_session_key_def student_request_def demo_chat_def)
  note A = student_access_first_touch [OF u0 g0]
  note B = student_access_first_touch [OF u g]
  from A [of ?env ?get] k
  have 1: "fst (student_chat ?env ?get demo_id ?db0) \<noteq> access_denied"
    and 2: "get_session (snd (student_chat ?env ?get demo_id ?db0)) demo_id =
      Inr (demo_chat\<lparr>student_session_key := ''sk-bob''\<rparr>)"
    by simp_all
  from A [of ?env ?post] k
  have 3: "fst (student_chat ?env ?post demo_id ?db0) = access_denied"
    by simp
  from B [of ?env ?get] k
  have 4: "fst (student_chat ?env ?get demo_id demo_db) = access_denied"
    by simp
  have 5: "list_all (\<lambda>s1. student_session_key s1 = ''sk-alice'')
     (sessions (step demo_db (Student_chat ?env ?get demo_id)))"
    unfolding list_all_iff
  proof
    fix s1
    assume m: "s1 \<in> set (sessions (step demo_db (Student_chat ?env ?get demo_id)))"
    then have "chat_id s1 \<in> set (map chat_id (sessions (step demo_db (Student_chat ?env ?get demo_id))))"
      by simp
    then have "chat_id s1 = chat_id demo_chat"
      by (simp add: student_chat_ids demo_db_def)
    moreover have "demo_chat \<in> set (sessions demo_db)"
      by (simp add: demo_db_def)
    ultimately show "student_session_key s1 = ''sk-alice''"
      using B [of ?env ?get] m k(5) by (metis list.discI)
  qed
  from 1 2 3 4 5 show ?thesis
    by blast
qed

text \<open>
  The other student checks compare tokens and bind nothing: \<open>validate_chat_access\<close> and
  the message API refuse an anonymous caller whose key differs from the stored token,
  also when no token is stored yet.
\<close>

lemma validate_chat_access_anonymous:
  "req_user req = None \<Longrightarrow>
     validate_chat_access req chat \<longleftrightarrow> session_key req = Some (student_session_key chat)"
  by (simp add: validate_chat_access_def)

lemma chat_messages_api_anonymous:
  assumes "req_user req = None" and "req_method req = GET" and "get_session db cid = Inr chat"
  shows "chat_messages_api req cid db \<noteq> Json_denied \<longleftrightarrow>
     session_key req = Some (student_session_key chat)"
  using assms by (simp add: chat_messages_api_def)

subsection \<open>Joining through the view\<close>

text \<open>
  The same through the view: two joins of a waiting or active session by the same user
  leave the session active with the user related once.
\<close>

lemma users_writes [simp]:
  "users (create_message db cid sender key txt fs kind stamp) = users db"
  "users (save_session db c) = users db"
  by (simp_all add: create_message_def save_session_def)

lemma join_chat_once:
  assumes "req_user req = Some u" and "pk u = Some k" and "k \<in> set (users db)" and "0 < k"
    and "get_session db cid = Inr chat" and "distinct (technicians chat)"
    and "status chat = WAITING \<or> status chat = ACTIVE"
  shows "get_session (snd (join_chat env req cid db)) cid =
           Inr (chat\<lparr>technicians := technicians_add (technicians chat) k, status := ACTIVE\<rparr>) \<and>
         users (snd (join_chat env req cid db)) = users db"
proof -
  have id: "chat_id chat = cid"
    by (rule get_session_row(2)[OF assms(5)])
  let ?c = "chat\<lparr>technicians := technicians_add (technicians chat) k, status := ACTIVE\<rparr>"
  have saved: "get_session (save_session db ?c) cid = Inr ?c"
    by (rule get_session_save[OF assms(5)]) (simp add: id)
  from assms(7) show ?thesis
  proof
    assume w: "status chat = WAITING"
    then have "add_technician db chat u = Inr ?c"
      using assms(2-4) by (simp add: add_technician_def Let_def)
    with w assms(1,5) saved show ?thesis
      by (simp add: join_chat_def)
  next
    assume a: "status chat = ACTIVE"
    then have eq: "?c = chat\<lparr>technicians := technicians_add (technicians chat) k\<rparr>"
      by simp
    show ?thesis
    proof (cases "k \<in> set (technicians chat)")
      case True
      then have "?c = chat"
        using a by (simp add: technicians_add_def)
      with True a assms(1,2,5) show ?thesis
        by (simp add: join_chat_def is_technician_of_def)
    next
      case False
      with a assms(1,2,5) saved eq show ?thesis
        by (simp add: join_chat_def is_technician_of_def)
    qed
  qed
qed

lemma join_chat_twice:
  assumes "req_user req = Some u" and "pk u = Some k" and "k \<in> set (users db)" and "0 < k"
    and "get_session db cid = Inr chat" and "distinct (technicians chat)"
    and "status chat = WAITING \<or> status chat = ACTIVE"
  shows "\<exists>c. get_session (snd (join_chat env2 req cid (snd (join_chat env req cid db)))) cid = Inr c \<and>
           count_list (technicians c) k = 1 \<and> status c = ACTIVE"
proof -
  let ?c = "chat\<lparr>technicians := technicians_add (technicians chat) k, status := ACTIVE\<rparr>"
  let ?db1 = "snd (join_chat env req cid db)"
  note first = join_chat_once[OF assms, of env]
  have d: "distinct (technicians ?c)"
    using assms(6) by (simp add: distinct_technicians_add)
  from first assms(3) have k: "k \<in> set (users ?db1)" by simp
  from first have g: "get_session ?db1 cid = Inr ?c" by simp
  have "get_session (snd (join_chat env2 req cid ?db1)) cid =
      Inr (?c\<lparr>technicians := technicians_add (technicians ?c) k, status := ACTIVE\<rparr>)"
    using join_chat_once[OF assms(1,2) k assms(4) g d, of env2] by simp
  moreover have "count_list (technicians_add (technicians_add (technicians chat) k) k) k = 1"
    using assms(6) by (simp add: technicians_add_idem count_technicians_add)
  ultimately show ?thesis
    by simp
qed

section \<open>The cleanup command\<close>

text \<open>
  Claim C9, at the failing input. With one closed session older than seven days in the
  database, the command run with \<^verbatim>\<open>--days 7\<close> raises AttributeError and leaves the
  session where it is, and so does its dry run, which lists nothing.
\<close>

theorem cleanup_old_chats_raises:
  "sessions closed_db = [demo_chat\<lparr>status := CLOSED\<rparr>] \<and>
   int (created_at (demo_chat\<lparr>status := CLOSED\<rparr>)) < int (timezone_now cleanup_env) - 7 * seconds_per_day \<and>
   handle cleanup_env 7 False closed_db = (Inl AttributeError, closed_db) \<and>
   handle cleanup_env 7 True closed_db = (Inl AttributeError, closed_db)"
  by (simp add: handle_raises closed_db_def cleanup_env_def demo_env_def demo_chat_def
      seconds_per_day_def)

text \<open>
  Past the attribute lookup the command would do what its help text says: with the status
  \<open>CLOSED\<close> to filter by, and unique identifiers, the run deletes exactly the closed
  sessions created before the cutoff and reports their number; the dry run changes
  nothing and prints the first ten of them.
\<close>

lemma sessions_delete_sessions:
  "sessions (delete_sessions db cids) = filter (\<lambda>c. chat_id c \<notin> set cids) (sessions db)"
  unfolding delete_sessions_def
proof (induction cids arbitrary: db)
  case Nil
  then show ?case by simp
next
  case (Cons i cids)
  show ?case
    by (simp add: Cons delete_session_tables(1))
qed

lemma handle_query_dry_run:
  "snd (handle_query closed cutoff days True db) = db \<and>
   fst (handle_query closed cutoff days True db) =
     Dry_run_header
       (length (filter (\<lambda>c. status c = closed \<and> int (created_at c) < cutoff) (sessions db))) days #
     map (\<lambda>c. Chat_line (chat_id c) (student_name c) (created_at c))
       (take 10 (filter (\<lambda>c. status c = closed \<and> int (created_at c) < cutoff) (sessions db))) @
     (if 10 < length (filter (\<lambda>c. status c = closed \<and> int (created_at c) < cutoff) (sessions db))
      then [And_more
              (length (filter (\<lambda>c. status c = closed \<and> int (created_at c) < cutoff) (sessions db)) - 10)]
      else [])"
  by (simp add: handle_query_def Let_def)

lemma handle_query_deletes:
  assumes "unique_chat_ids db"
  shows "sessions (snd (handle_query CLOSED cutoff days False db)) =
           filter (\<lambda>c. \<not> (status c = CLOSED \<and> int (created_at c) < cutoff)) (sessions db) \<and>
         fst (handle_query CLOSED cutoff days False db) =
           [Deleted_line
              (length (filter (\<lambda>c. status c = CLOSED \<and> int (created_at c) < cutoff) (sessions db)))]"
proof -
  let ?old = "\<lambda>c. status c = CLOSED \<and> int (created_at c) < cutoff"
  have inj: "inj_on chat_id (set (sessions db))"
    using assms by (simp add: unique_chat_ids_def distinct_map)
  have "chat_id c \<notin> set (map chat_id (filter ?old (sessions db))) \<longleftrightarrow> \<not> ?old c"
    if "c \<in> set (sessions db)" for c
  proof
    assume "chat_id c \<notin> set (map chat_id (filter ?old (sessions db)))"
    with that show "\<not> ?old c" by force
  next
    assume n: "\<not> ?old c"
    show "chat_id c \<notin> set (map chat_id (filter ?old (sessions db)))"
    proof
      assume "chat_id c \<in> set (map chat_id (filter ?old (sessions db)))"
      then obtain r where r: "r \<in> set (sessions db)" "?old r" "chat_id r = chat_id c"
        by auto
      with inj that have "r = c" by (auto dest: inj_onD)
      with r n show False by simp
    qed
  qed
  then have "filter (\<lambda>c. chat_id c \<notin> set (map chat_id (filter ?old (sessions db)))) (sessions db) =
      filter (\<lambda>c. \<not> ?old c) (sessions db)"
    by (intro filter_cong) auto
  then show ?thesis
    by (simp add: handle_query_def Let_def sessions_delete_sessions)
qed

end
